theory Spec2Isabelle
  imports Main "HOL-Library.Word"
begin

section \<open>Configuration and kernel requests\<close>

text \<open>
  \<^verbatim>\<open>frt.h\<close> wraps the FreeRTOS kernel. The kernel headers are not part of the
  repository, so the macros and types the wrappers use are parameters of the model:
  \<^item> \<open>'w\<close> is the width of \<^verbatim>\<open>unsigned int\<close>, \<open>'t\<close> the width of \<^verbatim>\<open>TickType_t\<close> and
    \<open>'u\<close> the width of \<^verbatim>\<open>UBaseType_t\<close>;
  \<^item> the record \<open>config\<close> holds the values of the configuration macros; its
    parameter \<open>'tick\<close> is always a \<open>'t word\<close>.
  A division by \<^verbatim>\<open>portTICK_PERIOD_MS\<close> is undefined in C++ when the macro is zero;
  theorems that depend on the quotient assume the macro is not zero.
\<close>

record 'tick config =
  portTICK_PERIOD_MS :: 'tick
  portMAX_DELAY :: 'tick
  sizeof_StackType_t :: nat
  configMAX_PRIORITIES :: int
  configSUPPORT_STATIC_ALLOCATION :: int
  defined_portYIELD_FROM_ISR :: bool
  defined_portEND_SWITCHING_ISR :: bool

text \<open>
  The scheduler requests a wrapper issues, in the order it issues them. They have no
  result the wrapper reads, so a wrapper returns them as a list.
\<close>

datatype 'tick kcall =
    TaskYIELD
  | VTaskDelay 'tick
  | PortYIELD_FROM_ISR
  | PortEND_SWITCHING_ISR

text \<open>
  \<^verbatim>\<open>const TickType_t ticks = msecs / portTICK_PERIOD_MS;\<close> The operands are unsigned, so
  the usual arithmetic conversions keep their values and the quotient is the
  mathematical one; the initialisation converts it to \<^verbatim>\<open>TickType_t\<close>.
\<close>

definition ms_div_tick :: "'t::len word config \<Rightarrow> 'w::len word \<Rightarrow> 't word" where
  "ms_div_tick cfg msecs = of_nat (unat msecs div unat (portTICK_PERIOD_MS cfg))"

text \<open>\<^verbatim>\<open>remainder = msecs % portTICK_PERIOD_MS;\<close> stored in an \<^verbatim>\<open>unsigned int\<close>.\<close>

definition ms_mod_tick :: "'t::len word config \<Rightarrow> 'w::len word \<Rightarrow> 'w word" where
  "ms_mod_tick cfg msecs = of_nat (unat msecs mod unat (portTICK_PERIOD_MS cfg))"

section \<open>The kernel services\<close>

text \<open>
  Modelled from the spec: the kernel (FreeRTOS) is consumed as an opaque service and its
  code is not in the repository. Section 1 of the spec lists what it offers: a per-task
  notification counter with give/take, a bounded message queue, semaphores, each with a
  task-context and an interrupt-context entry point, the latter reporting whether a
  higher-priority task became runnable. The definitions below give each service the
  behaviour sections 3 and 4 of the spec describe. A kernel object is a value; the
  handle a wrapper stores is modelled by the object itself.

  What other contexts do is not computed by the model but given to it: a call that
  blocks takes a parameter saying whether it is served before its timeout expires, and
  an interrupt-context call takes a parameter saying whether it woke a task of higher
  priority.
\<close>

text \<open>
  Modelled from the spec: the result codes of the kernel calls, which are macros of the
  kernel headers. Failure is 0.
\<close>

definition pdFALSE :: int where "pdFALSE = 0"

text \<open>Modelled from the spec: the kernel's result code for success, 1.\<close>

definition pdTRUE :: int where "pdTRUE = 1"

text \<open>Modelled from the spec: the kernel's result code of a send to a full queue.\<close>

definition errQUEUE_FULL :: int where "errQUEUE_FULL = 0"

text \<open>Modelled from the spec: the kernel's result code of a receive from an empty queue.\<close>

definition errQUEUE_EMPTY :: int where "errQUEUE_EMPTY = 0"

text \<open>
  Modelled from the spec: the timeout of a blocking kernel call. A caller that cannot
  proceed waits for at most \<open>ticks\<close>: not at all for 0 ticks, without a limit for
  \<^verbatim>\<open>portMAX_DELAY\<close> (section 4.2: blocks forever). The result is \<open>Some True\<close> when the
  caller is served, \<open>Some False\<close> when the time expires and \<open>None\<close> when it waits
  forever.
\<close>

definition await :: "'t::len word config \<Rightarrow> 't word \<Rightarrow> bool \<Rightarrow> bool option" where
  "await cfg ticks served =
     (if ticks = 0 then Some False
      else if served then Some True
      else if ticks = portMAX_DELAY cfg then None
      else Some False)"

subsection \<open>Task notifications\<close>

text \<open>
  Modelled from the spec: the kernel's task object, of which the wrappers use the
  notification counter (section 1: a per-task notification counter).
\<close>

record ktask =
  ulNotifiedValue :: "32 word"

text \<open>
  Modelled from the spec: the kernel's \<^verbatim>\<open>ulTaskNotifyTake(xClearCountOnExit,
  xTicksToWait)\<close>, the take of the per-task notification counter (sections 1 and 4.1:
  blocks until the count is non-zero, consuming one count). It gives the count before
  the call (0 after a timeout) and the calling task afterwards.
\<close>

definition ulTaskNotifyTake ::
  "'t::len word config \<Rightarrow> ktask \<Rightarrow> bool \<Rightarrow> 't word \<Rightarrow> bool \<Rightarrow> (32 word \<times> ktask) option" where
  "ulTaskNotifyTake cfg k xClearCountOnExit ticks given =
     (if ulNotifiedValue k \<noteq> 0
      then Some (ulNotifiedValue k,
             k\<lparr>ulNotifiedValue := (if xClearCountOnExit then 0 else ulNotifiedValue k - 1)\<rparr>)
      else case await cfg ticks given of
             None \<Rightarrow> None
           | Some True \<Rightarrow> Some (1, k\<lparr>ulNotifiedValue := 0\<rparr>)
           | Some False \<Rightarrow> Some (0, k))"

text \<open>
  Modelled from the spec: the kernel's \<^verbatim>\<open>vTaskNotifyGiveFromISR\<close>, the give of the
  notification counter from an interrupt. It raises the caller's flag when it woke a
  task of higher priority and leaves the flag alone otherwise (section 5).
\<close>

definition vTaskNotifyGiveFromISR :: "ktask \<Rightarrow> int \<Rightarrow> bool \<Rightarrow> ktask \<times> int" where
  "vTaskNotifyGiveFromISR k woken_flag woken =
     (k\<lparr>ulNotifiedValue := ulNotifiedValue k + 1\<rparr>, if woken then pdTRUE else woken_flag)"

subsection \<open>Queues\<close>

text \<open>
  Modelled from the spec: the kernel's bounded queue (sections 1 and 3), the items in
  the order of their arrival and the capacity.
\<close>

record 'a kqueue =
  items :: "'a list"
  uxLength :: nat

text \<open>Modelled from the spec: the kernel's \<^verbatim>\<open>xQueueCreate\<close>, which gives an empty queue.\<close>

definition xQueueCreate :: "nat \<Rightarrow> 'a kqueue" where
  "xQueueCreate n = \<lparr> items = [], uxLength = n \<rparr>"

text \<open>
  Modelled from the spec: the kernel's \<^verbatim>\<open>xQueueSend\<close> (section 4.2: enqueues, or blocks
  while the queue is full). A sender blocked on a full queue is served when another
  context receives the front item.
\<close>

definition xQueueSend ::
  "'t::len word config \<Rightarrow> 'a kqueue \<Rightarrow> 'a \<Rightarrow> 't word \<Rightarrow> bool \<Rightarrow> (int \<times> 'a kqueue) option" where
  "xQueueSend cfg q item ticks received =
     (if length (items q) < uxLength q
      then Some (pdTRUE, q\<lparr>items := items q @ [item]\<rparr>)
      else case await cfg ticks (received \<and> items q \<noteq> []) of
             None \<Rightarrow> None
           | Some True \<Rightarrow> Some (pdTRUE, q\<lparr>items := tl (items q) @ [item]\<rparr>)
           | Some False \<Rightarrow> Some (errQUEUE_FULL, q))"

text \<open>
  Modelled from the spec: the kernel's \<^verbatim>\<open>xQueueReceive\<close> (section 4.2: the symmetric
  dequeue). A receiver blocked on an empty queue is served when another context sends
  the item \<open>sent\<close>. It gives the result, the queue afterwards and the value copied to
  the caller's buffer, if any.
\<close>

definition xQueueReceive ::
  "'t::len word config \<Rightarrow> 'a kqueue \<Rightarrow> 't word \<Rightarrow> 'a option \<Rightarrow>
     (int \<times> 'a kqueue \<times> 'a option) option" where
  "xQueueReceive cfg q ticks sent =
     (case items q of
        x # xs \<Rightarrow> Some (pdTRUE, q\<lparr>items := xs\<rparr>, Some x)
      | [] \<Rightarrow>
          (case await cfg ticks (sent \<noteq> None \<and> 0 < uxLength q) of
             None \<Rightarrow> None
           | Some True \<Rightarrow> Some (pdTRUE, q, sent)
           | Some False \<Rightarrow> Some (errQUEUE_EMPTY, q, None)))"

text \<open>
  Modelled from the spec: the kernel's \<^verbatim>\<open>xQueueSendFromISR\<close> (sections 4.2 and 5): it
  never blocks, and raises the caller's flag when it woke a task of higher priority.
\<close>

definition xQueueSendFromISR ::
  "'a kqueue \<Rightarrow> 'a \<Rightarrow> int \<Rightarrow> bool \<Rightarrow> int \<times> 'a kqueue \<times> int" where
  "xQueueSendFromISR q item woken_flag woken =
     (if length (items q) < uxLength q
      then (pdTRUE, q\<lparr>items := items q @ [item]\<rparr>, if woken then pdTRUE else woken_flag)
      else (errQUEUE_FULL, q, woken_flag))"

subsection \<open>Semaphores\<close>

text \<open>
  Modelled from the spec: the kernel's semaphore (sections 3 and 4.4), a count and its
  maximum, both of type \<^verbatim>\<open>UBaseType_t\<close>.
\<close>

record 'c ksemaphore =
  uxCount :: 'c
  uxMaxCount :: 'c

text \<open>
  Modelled from the spec: the kernel's \<^verbatim>\<open>xSemaphoreCreateBinary\<close> (section 3: the state
  of a binary semaphore is 0 or 1). The new semaphore is at 0.
\<close>

definition xSemaphoreCreateBinary :: "'u::len word ksemaphore" where
  "xSemaphoreCreateBinary = \<lparr> uxCount = 0, uxMaxCount = 1 \<rparr>"

text \<open>
  Modelled from the spec: the kernel's \<^verbatim>\<open>xSemaphoreCreateCounting\<close> (section 3: the
  state of a counting semaphore is between 0 and its maximum).
\<close>

definition xSemaphoreCreateCounting :: "'u::len word \<Rightarrow> 'u word \<Rightarrow> 'u word ksemaphore" where
  "xSemaphoreCreateCounting uxMax uxInitial = \<lparr> uxCount = uxInitial, uxMaxCount = uxMax \<rparr>"

text \<open>
  Modelled from the spec: the kernel's \<^verbatim>\<open>xSemaphoreGive\<close> (section 4.4: increments the
  count, saturating). It increments the count below the maximum and fails at the
  maximum.
\<close>

definition xSemaphoreGive :: "'u::len word ksemaphore \<Rightarrow> int \<times> 'u word ksemaphore" where
  "xSemaphoreGive s =
     (if uxCount s < uxMaxCount s then (pdTRUE, s\<lparr>uxCount := uxCount s + 1\<rparr>)
      else (errQUEUE_FULL, s))"

text \<open>
  Modelled from the spec: the kernel's \<^verbatim>\<open>xSemaphoreTake\<close> (section 4.4): it decrements
  a count above 0 and blocks at 0, where it is served when another context gives.
\<close>

definition xSemaphoreTake ::
  "'t::len word config \<Rightarrow> 'u::len word ksemaphore \<Rightarrow> 't word \<Rightarrow> bool \<Rightarrow>
     (int \<times> 'u word ksemaphore) option" where
  "xSemaphoreTake cfg s ticks given =
     (if uxCount s \<noteq> 0 then Some (pdTRUE, s\<lparr>uxCount := uxCount s - 1\<rparr>)
      else case await cfg ticks given of
             None \<Rightarrow> None
           | Some True \<Rightarrow> Some (pdTRUE, s)
           | Some False \<Rightarrow> Some (pdFALSE, s))"

text \<open>
  Modelled from the spec: the kernel's \<^verbatim>\<open>xSemaphoreGiveFromISR\<close> (sections 4.4 and 5): a
  give that also raises the caller's flag when it woke a task of higher priority.
\<close>

definition xSemaphoreGiveFromISR ::
  "'u::len word ksemaphore \<Rightarrow> int \<Rightarrow> bool \<Rightarrow> int \<times> 'u word ksemaphore \<times> int" where
  "xSemaphoreGiveFromISR s woken_flag woken =
     (if uxCount s < uxMaxCount s
      then (pdTRUE, s\<lparr>uxCount := uxCount s + 1\<rparr>, if woken then pdTRUE else woken_flag)
      else (errQUEUE_FULL, s, woken_flag))"

section \<open>Task\<close>

text \<open>
  \<^verbatim>\<open>class Task\<close>. The constructor sets \<^verbatim>\<open>running\<close>, \<^verbatim>\<open>do_stop\<close> and \<^verbatim>\<open>handle\<close>; it
  leaves \<^verbatim>\<open>higher_priority_task_woken\<close> uninitialised, so the model takes its first
  value as a parameter.
\<close>

record Task =
  running :: bool
  do_stop :: bool
  handle :: "ktask option"
  higher_priority_task_woken :: int

definition Task_new :: "int \<Rightarrow> Task" where
  "Task_new uninitialised =
     \<lparr> running = False, do_stop = False, handle = None,
       higher_priority_task_woken = uninitialised \<rparr>"

subsection \<open>Starting\<close>

text \<open>What \<^verbatim>\<open>start\<close> asks of the kernel.\<close>

record create_request =
  pcName :: string
  usStackDepth :: nat
  uxPriority :: "8 word"

datatype create_call =
    XTaskCreateStatic create_request
  | XTaskCreate create_request

text \<open>
  \<^verbatim>\<open>bool start(unsigned char priority = 0, const char* name = "")\<close>. In the comparison
  \<^verbatim>\<open>priority >= configMAX_PRIORITIES\<close> the \<^verbatim>\<open>unsigned char\<close> is promoted to \<^verbatim>\<open>int\<close>; the
  assignment converts \<^verbatim>\<open>configMAX_PRIORITIES - 1\<close> back to \<^verbatim>\<open>unsigned char\<close>.
  \<open>created\<close> is the kernel's answer: the new task, or \<open>None\<close> when it cannot create
  one. \<^verbatim>\<open>xTaskCreate\<close> stores the handle only when it succeeds.
\<close>

definition start ::
  "'t::len word config \<Rightarrow> nat \<Rightarrow> Task \<Rightarrow> 8 word \<Rightarrow> string \<Rightarrow> ktask option \<Rightarrow>
     bool \<times> Task \<times> create_call" where
  "start cfg STACK_SIZE t priority name created =
     (let priority' =
            (if configMAX_PRIORITIES cfg \<le> uint priority
             then word_of_int (configMAX_PRIORITIES cfg - 1) else priority);
          request = \<lparr> pcName = name,
                      usStackDepth = STACK_SIZE div sizeof_StackType_t cfg,
                      uxPriority = priority' \<rparr>
      in if 0 < configSUPPORT_STATIC_ALLOCATION cfg
         then (created \<noteq> None, t\<lparr>handle := created\<rparr>, XTaskCreateStatic request)
         else (created \<noteq> None,
               (case created of None \<Rightarrow> t | Some k \<Rightarrow> t\<lparr>handle := Some k\<rparr>),
               XTaskCreate request))"

text \<open>The parameters \<^verbatim>\<open>start\<close> passed to the kernel.\<close>

fun request_of :: "create_call \<Rightarrow> create_request" where
  "request_of (XTaskCreateStatic request) = request"
| "request_of (XTaskCreate request) = request"

subsection \<open>Sleeping\<close>

text \<open>\<^verbatim>\<open>void yield() { taskYIELD(); }\<close>\<close>

definition yield :: "'t word kcall list" where
  "yield = [TaskYIELD]"

text \<open>\<^verbatim>\<open>void msleep(unsigned int msecs)\<close>\<close>

definition msleep :: "'t::len word config \<Rightarrow> 'w::len word \<Rightarrow> 't word kcall list" where
  "msleep cfg msecs =
     (let ticks = ms_div_tick cfg msecs
      in if ticks \<noteq> 0 then [VTaskDelay ticks] else yield)"

text \<open>
  \<^verbatim>\<open>void msleep(unsigned int msecs, unsigned int& remainder)\<close>: the new value of
  \<^verbatim>\<open>remainder\<close> and the scheduler requests. \<^verbatim>\<open>msecs += remainder\<close> is an addition of
  \<^verbatim>\<open>unsigned int\<close>, which wraps.
\<close>

definition msleep_remainder ::
  "'t::len word config \<Rightarrow> 'w::len word \<Rightarrow> 'w word \<Rightarrow> 'w word \<times> 't word kcall list" where
  "msleep_remainder cfg msecs remainder =
     (let msecs' = msecs + remainder;
          ticks = ms_div_tick cfg msecs';
          remainder' = ms_mod_tick cfg msecs'
      in (remainder', if ticks \<noteq> 0 then [VTaskDelay ticks] else yield))"

subsection \<open>Stopping\<close>

text \<open>
  \<^verbatim>\<open>stop\<close> runs in the caller's context and \<^verbatim>\<open>entryPoint\<close> in the kernel task, and they
  share \<^verbatim>\<open>running\<close>, \<^verbatim>\<open>do_stop\<close> and \<^verbatim>\<open>handle\<close>. Each is a small machine whose step is
  one access to the shared members; the scheduler decides whose step is next.

  The positions in \<^verbatim>\<open>stop\<close>: before \<^verbatim>\<open>if (!handle)\<close>, before \<^verbatim>\<open>do_stop = true\<close>, before
  the test of \<^verbatim>\<open>while (running)\<close>, before \<^verbatim>\<open>yield()\<close>, and after the \<^verbatim>\<open>return\<close> with the
  value returned.
\<close>

datatype stop_pc =
    Stop_Test_Handle
  | Stop_Set_Do_Stop
  | Stop_Test_Running
  | Stop_Yield
  | Stop_Returned bool

text \<open>
  The positions in \<^verbatim>\<open>entryPoint\<close>: before \<^verbatim>\<open>self->running = true\<close>, before the call of
  \<^verbatim>\<open>run()\<close>, before the test of \<^verbatim>\<open>!self->do_stop\<close>, before each of the three assignments
  after the loop, before \<^verbatim>\<open>vTaskDelete\<close>, and after it.
\<close>

datatype entry_pc =
    Entry_Set_Running
  | Entry_Call_Run
  | Entry_Test_Do_Stop
  | Entry_Clear_Do_Stop
  | Entry_Clear_Running
  | Entry_Clear_Handle
  | Entry_Delete
  | Entry_Deleted

text \<open>
  The object, the position of the caller of \<^verbatim>\<open>stop\<close>, the position of the kernel task
  (\<open>None\<close> when no task was created), the number of calls of \<^verbatim>\<open>run()\<close> made so far and
  the number of yields of the caller.
\<close>

record system =
  task :: Task
  stopper :: stop_pc
  worker :: "entry_pc option"
  run_calls :: nat
  stop_yields :: nat

definition stop_step :: "system \<Rightarrow> system" where
  "stop_step s =
     (case stopper s of
        Stop_Test_Handle \<Rightarrow>
          (if handle (task s) = None then s\<lparr>stopper := Stop_Returned False\<rparr>
           else s\<lparr>stopper := Stop_Set_Do_Stop\<rparr>)
      | Stop_Set_Do_Stop \<Rightarrow>
          s\<lparr>task := (task s)\<lparr>do_stop := True\<rparr>, stopper := Stop_Test_Running\<rparr>
      | Stop_Test_Running \<Rightarrow>
          (if running (task s) then s\<lparr>stopper := Stop_Yield\<rparr>
           else s\<lparr>stopper := Stop_Returned True\<rparr>)
      | Stop_Yield \<Rightarrow>
          s\<lparr>stopper := Stop_Test_Running, stop_yields := Suc (stop_yields s)\<rparr>
      | Stop_Returned b \<Rightarrow> s)"

text \<open>
  \<open>continue\<close> is the value \<^verbatim>\<open>run()\<close> returns when the step is its call. \<^verbatim>\<open>run\<close> belongs to
  the derived class, which cannot reach the private members.
\<close>

definition entry_step :: "bool \<Rightarrow> system \<Rightarrow> system" where
  "entry_step continue s =
     (case worker s of
        None \<Rightarrow> s
      | Some Entry_Set_Running \<Rightarrow>
          s\<lparr>task := (task s)\<lparr>running := True\<rparr>, worker := Some Entry_Call_Run\<rparr>
      | Some Entry_Call_Run \<Rightarrow>
          s\<lparr>worker := Some (if continue then Entry_Test_Do_Stop else Entry_Clear_Do_Stop),
            run_calls := Suc (run_calls s)\<rparr>
      | Some Entry_Test_Do_Stop \<Rightarrow>
          s\<lparr>worker := Some (if \<not> do_stop (task s) then Entry_Call_Run
                               else Entry_Clear_Do_Stop)\<rparr>
      | Some Entry_Clear_Do_Stop \<Rightarrow>
          s\<lparr>task := (task s)\<lparr>do_stop := False\<rparr>, worker := Some Entry_Clear_Running\<rparr>
      | Some Entry_Clear_Running \<Rightarrow>
          s\<lparr>task := (task s)\<lparr>running := False\<rparr>, worker := Some Entry_Clear_Handle\<rparr>
      | Some Entry_Clear_Handle \<Rightarrow>
          s\<lparr>task := (task s)\<lparr>handle := None\<rparr>, worker := Some Entry_Delete\<rparr>
      | Some Entry_Delete \<Rightarrow> s\<lparr>worker := Some Entry_Deleted\<rparr>
      | Some Entry_Deleted \<Rightarrow> s)"

datatype turn = Stopper | Worker bool

fun schedule :: "turn list \<Rightarrow> system \<Rightarrow> system" where
  "schedule [] s = s"
| "schedule (Stopper # ts) s = schedule ts (stop_step s)"
| "schedule (Worker continue # ts) s = schedule ts (entry_step continue s)"

text \<open>
  The system when \<^verbatim>\<open>stop\<close> is called on an object on which \<^verbatim>\<open>start\<close> has returned: the
  kernel task exists when the kernel created it, and it has not run yet.
\<close>

definition started :: "bool \<times> Task \<times> create_call \<Rightarrow> system" where
  "started r =
     \<lparr> task = fst (snd r), stopper = Stop_Test_Handle,
       worker = (if fst r then Some Entry_Set_Running else None),
       run_calls = 0, stop_yields = 0 \<rparr>"

text \<open>The run-loop of the kernel task is still to execute or executing.\<close>

definition run_loop_pending :: "system \<Rightarrow> bool" where
  "run_loop_pending s =
     (worker s = Some Entry_Set_Running \<or> worker s = Some Entry_Call_Run
      \<or> worker s = Some Entry_Test_Do_Stop)"

subsection \<open>Posting from an interrupt\<close>

text \<open>
  \<^verbatim>\<open>detail::yieldFromIsr()\<close>: the first of \<^verbatim>\<open>portYIELD_FROM_ISR\<close>,
  \<^verbatim>\<open>portEND_SWITCHING_ISR\<close> and \<^verbatim>\<open>taskYIELD\<close> that the port defines.
\<close>

definition yieldFromIsr :: "'t word config \<Rightarrow> 't word kcall list" where
  "yieldFromIsr cfg =
     (if defined_portYIELD_FROM_ISR cfg then [PortYIELD_FROM_ISR]
      else if defined_portEND_SWITCHING_ISR cfg then [PortEND_SWITCHING_ISR]
      else [TaskYIELD])"

definition Task_preparePostFromInterrupt :: "Task \<Rightarrow> Task" where
  "Task_preparePostFromInterrupt t = t\<lparr>higher_priority_task_woken := 0\<rparr>"

text \<open>
  \<^verbatim>\<open>vTaskNotifyGiveFromISR(handle, &higher_priority_task_woken)\<close>. The kernel call is
  undefined for a null handle: the result is \<open>None\<close>.
\<close>

definition Task_postFromInterrupt :: "Task \<Rightarrow> bool \<Rightarrow> Task option" where
  "Task_postFromInterrupt t woken =
     (case handle t of
        None \<Rightarrow> None
      | Some k \<Rightarrow>
          (let (k', flag) = vTaskNotifyGiveFromISR k (higher_priority_task_woken t) woken
           in Some (t\<lparr>handle := Some k', higher_priority_task_woken := flag\<rparr>)))"

definition Task_finalizePostFromInterrupt :: "'t word config \<Rightarrow> Task \<Rightarrow> 't word kcall list" where
  "Task_finalizePostFromInterrupt cfg t =
     (if higher_priority_task_woken t \<noteq> 0 then yieldFromIsr cfg else [])"

subsection \<open>Waiting for a notification\<close>

text \<open>
  The three \<^verbatim>\<open>wait\<close> members are protected: the kernel task calls them from \<^verbatim>\<open>run()\<close>, and
  \<^verbatim>\<open>ulTaskNotifyTake\<close> acts on the calling task \<open>k\<close>. \<^verbatim>\<open>void wait()\<close>:
\<close>

definition Task_wait :: "'t::len word config \<Rightarrow> ktask \<Rightarrow> bool \<Rightarrow> ktask option" where
  "Task_wait cfg k given =
     map_option snd (ulTaskNotifyTake cfg k False (portMAX_DELAY cfg) given)"

text \<open>\<^verbatim>\<open>bool wait(unsigned int msecs)\<close>: the count taken, converted to \<^verbatim>\<open>bool\<close>.\<close>

definition Task_wait_timed ::
  "'t::len word config \<Rightarrow> ktask \<Rightarrow> 'w::len word \<Rightarrow> bool \<Rightarrow> (bool \<times> ktask) option" where
  "Task_wait_timed cfg k msecs given =
     (let ticks = ms_div_tick cfg msecs
      in map_option (\<lambda>(n, k'). (n \<noteq> 0, k')) (ulTaskNotifyTake cfg k False ticks given))"

text \<open>
  \<^verbatim>\<open>bool wait(unsigned int msecs, unsigned int& remainder)\<close>: the result, the new value
  of \<^verbatim>\<open>remainder\<close> and the task.
\<close>

definition Task_wait_remainder ::
  "'t::len word config \<Rightarrow> ktask \<Rightarrow> 'w::len word \<Rightarrow> 'w word \<Rightarrow> bool \<Rightarrow>
     (bool \<times> 'w word \<times> ktask) option" where
  "Task_wait_remainder cfg k msecs remainder given =
     (let msecs' = msecs + remainder;
          ticks = ms_div_tick cfg msecs';
          remainder' = ms_mod_tick cfg msecs'
      in case ulTaskNotifyTake cfg k False ticks given of
           None \<Rightarrow> None
         | Some (n, k') \<Rightarrow>
             if n \<noteq> 0 then Some (True, 0, k') else Some (False, remainder', k'))"

section \<open>Queue\<close>

text \<open>
  \<^verbatim>\<open>class Queue<T, ITEMS>\<close>. The constructor creates the kernel queue and leaves the two
  flags uninitialised. \<^verbatim>\<open>ITEMS\<close> is the queue length the kernel receives; a negative
  \<^verbatim>\<open>int\<close> is no capacity, so it is a natural number here.
\<close>

record 'a Queue =
  queue_handle :: "'a kqueue"
  higher_priority_task_woken_from_push :: int
  higher_priority_task_woken_from_pop :: int

definition Queue_new :: "nat \<Rightarrow> int \<Rightarrow> int \<Rightarrow> 'a Queue" where
  "Queue_new ITEMS uninitialised_push uninitialised_pop =
     \<lparr> queue_handle = xQueueCreate ITEMS,
       higher_priority_task_woken_from_push = uninitialised_push,
       higher_priority_task_woken_from_pop = uninitialised_pop \<rparr>"

text \<open>\<^verbatim>\<open>void push(const T& item)\<close>\<close>

definition push :: "'t::len word config \<Rightarrow> 'a Queue \<Rightarrow> 'a \<Rightarrow> bool \<Rightarrow> 'a Queue option" where
  "push cfg q item received =
     map_option (\<lambda>(r, k). q\<lparr>queue_handle := k\<rparr>)
       (xQueueSend cfg (queue_handle q) item (portMAX_DELAY cfg) received)"

text \<open>\<^verbatim>\<open>bool push(const T& item, unsigned int msecs)\<close>\<close>

definition push_timed ::
  "'t::len word config \<Rightarrow> 'a Queue \<Rightarrow> 'a \<Rightarrow> 'w::len word \<Rightarrow> bool \<Rightarrow> (bool \<times> 'a Queue) option" where
  "push_timed cfg q item msecs received =
     (let ticks = ms_div_tick cfg msecs
      in map_option (\<lambda>(r, k). (r = pdTRUE, q\<lparr>queue_handle := k\<rparr>))
           (xQueueSend cfg (queue_handle q) item ticks received))"

text \<open>\<^verbatim>\<open>bool push(const T& item, unsigned int msecs, unsigned int& remainder)\<close>\<close>

definition push_remainder ::
  "'t::len word config \<Rightarrow> 'a Queue \<Rightarrow> 'a \<Rightarrow> 'w::len word \<Rightarrow> 'w word \<Rightarrow> bool \<Rightarrow>
     (bool \<times> 'w word \<times> 'a Queue) option" where
  "push_remainder cfg q item msecs remainder received =
     (let msecs' = msecs + remainder;
          ticks = ms_div_tick cfg msecs';
          remainder' = ms_mod_tick cfg msecs'
      in case xQueueSend cfg (queue_handle q) item ticks received of
           None \<Rightarrow> None
         | Some (r, k) \<Rightarrow>
             if r = pdTRUE then Some (True, 0, q\<lparr>queue_handle := k\<rparr>)
             else Some (False, remainder', q\<lparr>queue_handle := k\<rparr>))"

definition preparePushFromInterrupt :: "'a Queue \<Rightarrow> 'a Queue" where
  "preparePushFromInterrupt q = q\<lparr>higher_priority_task_woken_from_push := 0\<rparr>"

definition pushFromInterrupt :: "'a Queue \<Rightarrow> 'a \<Rightarrow> bool \<Rightarrow> bool \<times> 'a Queue" where
  "pushFromInterrupt q item woken =
     (let (r, k, flag) =
            xQueueSendFromISR (queue_handle q) item (higher_priority_task_woken_from_push q) woken
      in (r = pdTRUE, q\<lparr>queue_handle := k, higher_priority_task_woken_from_push := flag\<rparr>))"

definition finalizePushFromInterrupt :: "'t word config \<Rightarrow> 'a Queue \<Rightarrow> 't word kcall list" where
  "finalizePushFromInterrupt cfg q =
     (if higher_priority_task_woken_from_push q \<noteq> 0 then yieldFromIsr cfg else [])"

text \<open>
  \<^verbatim>\<open>bool popFromInterrupt(const T& item)\<close> has no model: it hands the kernel the address
  of its \<^verbatim>\<open>const\<close> parameter as the buffer to write the item to, and a conversion from
  \<^verbatim>\<open>const T*\<close> to \<^verbatim>\<open>void*\<close> is ill-formed.
\<close>

text \<open>
  \<^verbatim>\<open>void pop(T& item)\<close>: the queue and the new value of \<^verbatim>\<open>item\<close>, which keeps its old
  value when the kernel copied nothing.
\<close>

definition store :: "'a option \<Rightarrow> 'a \<Rightarrow> 'a" where
  "store copied item = (case copied of None \<Rightarrow> item | Some v \<Rightarrow> v)"

definition pop :: "'t::len word config \<Rightarrow> 'a Queue \<Rightarrow> 'a \<Rightarrow> 'a option \<Rightarrow> ('a Queue \<times> 'a) option" where
  "pop cfg q item sent =
     map_option (\<lambda>(r, k, copied). (q\<lparr>queue_handle := k\<rparr>, store copied item))
       (xQueueReceive cfg (queue_handle q) (portMAX_DELAY cfg) sent)"

text \<open>\<^verbatim>\<open>bool pop(unsigned int msecs, T& item)\<close>\<close>

definition pop_timed ::
  "'t::len word config \<Rightarrow> 'a Queue \<Rightarrow> 'w::len word \<Rightarrow> 'a \<Rightarrow> 'a option \<Rightarrow>
     (bool \<times> 'a Queue \<times> 'a) option" where
  "pop_timed cfg q msecs item sent =
     (let ticks = ms_div_tick cfg msecs
      in map_option (\<lambda>(r, k, copied). (r = pdTRUE, q\<lparr>queue_handle := k\<rparr>, store copied item))
           (xQueueReceive cfg (queue_handle q) ticks sent))"

text \<open>\<^verbatim>\<open>bool pop(unsigned int msecs, unsigned int& remainder, T& item)\<close>\<close>

definition pop_remainder ::
  "'t::len word config \<Rightarrow> 'a Queue \<Rightarrow> 'w::len word \<Rightarrow> 'w word \<Rightarrow> 'a \<Rightarrow> 'a option \<Rightarrow>
     (bool \<times> 'w word \<times> 'a Queue \<times> 'a) option" where
  "pop_remainder cfg q msecs remainder item sent =
     (let msecs' = msecs + remainder;
          ticks = ms_div_tick cfg msecs';
          remainder' = ms_mod_tick cfg msecs'
      in case xQueueReceive cfg (queue_handle q) ticks sent of
           None \<Rightarrow> None
         | Some (r, k, copied) \<Rightarrow>
             if r = pdTRUE then Some (True, 0, q\<lparr>queue_handle := k\<rparr>, store copied item)
             else Some (False, remainder', q\<lparr>queue_handle := k\<rparr>, store copied item))"

section \<open>Semaphore\<close>

text \<open>
  \<^verbatim>\<open>class Semaphore\<close>. The constructor creates a binary semaphore, or a counting one
  with the maximum \<^verbatim>\<open>static_cast<UBaseType_t>(-1)\<close> and the count 0; it leaves the flag
  uninitialised.
\<close>

record 'c Semaphore =
  semaphore_handle :: "'c ksemaphore"
  semaphore_higher_priority_task_woken :: int

definition Semaphore_new :: "bool \<Rightarrow> int \<Rightarrow> 'u::len word Semaphore" where
  "Semaphore_new binary uninitialised =
     \<lparr> semaphore_handle =
         (if binary then xSemaphoreCreateBinary else xSemaphoreCreateCounting (- 1) 0),
       semaphore_higher_priority_task_woken = uninitialised \<rparr>"

text \<open>\<^verbatim>\<open>void wait()\<close>\<close>

definition Semaphore_wait ::
  "'t::len word config \<Rightarrow> 'u::len word Semaphore \<Rightarrow> bool \<Rightarrow> 'u word Semaphore option" where
  "Semaphore_wait cfg s given =
     map_option (\<lambda>(r, k). s\<lparr>semaphore_handle := k\<rparr>)
       (xSemaphoreTake cfg (semaphore_handle s) (portMAX_DELAY cfg) given)"

text \<open>\<^verbatim>\<open>bool wait(unsigned int msecs)\<close>\<close>

definition Semaphore_wait_timed ::
  "'t::len word config \<Rightarrow> 'u::len word Semaphore \<Rightarrow> 'w::len word \<Rightarrow> bool \<Rightarrow>
     (bool \<times> 'u word Semaphore) option" where
  "Semaphore_wait_timed cfg s msecs given =
     (let ticks = ms_div_tick cfg msecs
      in map_option (\<lambda>(r, k). (r = pdTRUE, s\<lparr>semaphore_handle := k\<rparr>))
           (xSemaphoreTake cfg (semaphore_handle s) ticks given))"

text \<open>\<^verbatim>\<open>bool wait(unsigned int msecs, unsigned int& remainder)\<close>\<close>

definition Semaphore_wait_remainder ::
  "'t::len word config \<Rightarrow> 'u::len word Semaphore \<Rightarrow> 'w::len word \<Rightarrow> 'w word \<Rightarrow> bool \<Rightarrow>
     (bool \<times> 'w word \<times> 'u word Semaphore) option" where
  "Semaphore_wait_remainder cfg s msecs remainder given =
     (let msecs' = msecs + remainder;
          ticks = ms_div_tick cfg msecs';
          remainder' = ms_mod_tick cfg msecs'
      in case xSemaphoreTake cfg (semaphore_handle s) ticks given of
           None \<Rightarrow> None
         | Some (r, k) \<Rightarrow>
             if r = pdTRUE then Some (True, 0, s\<lparr>semaphore_handle := k\<rparr>)
             else Some (False, remainder', s\<lparr>semaphore_handle := k\<rparr>))"

text \<open>\<^verbatim>\<open>void post()\<close>\<close>

definition Semaphore_post :: "'u::len word Semaphore \<Rightarrow> 'u word Semaphore" where
  "Semaphore_post s = s\<lparr>semaphore_handle := snd (xSemaphoreGive (semaphore_handle s))\<rparr>"

definition Semaphore_preparePostFromInterrupt :: "'c Semaphore \<Rightarrow> 'c Semaphore" where
  "Semaphore_preparePostFromInterrupt s = s\<lparr>semaphore_higher_priority_task_woken := 0\<rparr>"

definition Semaphore_postFromInterrupt ::
  "'u::len word Semaphore \<Rightarrow> bool \<Rightarrow> 'u word Semaphore" where
  "Semaphore_postFromInterrupt s woken =
     (let (r, k, flag) =
            xSemaphoreGiveFromISR (semaphore_handle s)
              (semaphore_higher_priority_task_woken s) woken
      in s\<lparr>semaphore_handle := k, semaphore_higher_priority_task_woken := flag\<rparr>)"

definition Semaphore_finalizePostFromInterrupt ::
  "'t word config \<Rightarrow> 'c Semaphore \<Rightarrow> 't word kcall list" where
  "Semaphore_finalizePostFromInterrupt cfg s =
     (if semaphore_higher_priority_task_woken s \<noteq> 0 then yieldFromIsr cfg else [])"

section \<open>Callers\<close>

text \<open>
  A caller that sleeps \<open>n\<close> times for the same period with one accumulator, and the
  time the kernel was asked to delay, in milliseconds.
\<close>

fun msleep_repeat ::
  "'t::len word config \<Rightarrow> nat \<Rightarrow> 'w::len word \<Rightarrow> 'w word \<Rightarrow> 'w word \<times> 't word kcall list" where
  "msleep_repeat cfg 0 period remainder = (remainder, [])"
| "msleep_repeat cfg (Suc n) period remainder =
     (let (r, cs) = msleep_remainder cfg period remainder;
          (r', cs') = msleep_repeat cfg n period r
      in (r', cs @ cs'))"

fun delay_ticks :: "'t::len word kcall \<Rightarrow> nat" where
  "delay_ticks (VTaskDelay ticks) = unat ticks"
| "delay_ticks _ = 0"

definition scheduled_ms :: "'t::len word config \<Rightarrow> 't word kcall list \<Rightarrow> nat" where
  "scheduled_ms cfg cs = sum_list (map delay_ticks cs) * unat (portTICK_PERIOD_MS cfg)"

text \<open>
  An example: the configuration of the FreeRTOS port for AVR Arduino boards, with
  16-bit ticks of 16 ms, four priorities and dynamic allocation. On AVR
  \<^verbatim>\<open>unsigned int\<close> has 16 bits as well.
\<close>

definition avr_config :: "16 word config" where
  "avr_config = \<lparr> portTICK_PERIOD_MS = 16, portMAX_DELAY = 65535,
     sizeof_StackType_t = 1, configMAX_PRIORITIES = 4,
     configSUPPORT_STATIC_ALLOCATION = 0, defined_portYIELD_FROM_ISR = False,
     defined_portEND_SWITCHING_ISR = False \<rparr>"

text \<open>
  Two more examples. A 32-bit board whose kernel is configured for 16-bit ticks of
  1 ms: \<^verbatim>\<open>TickType_t\<close> is narrower than the 32-bit \<^verbatim>\<open>unsigned int\<close>.
\<close>

definition narrow_tick_config :: "16 word config" where
  "narrow_tick_config = \<lparr> portTICK_PERIOD_MS = 1, portMAX_DELAY = 65535,
     sizeof_StackType_t = 4, configMAX_PRIORITIES = 5,
     configSUPPORT_STATIC_ALLOCATION = 0, defined_portYIELD_FROM_ISR = True,
     defined_portEND_SWITCHING_ISR = True \<rparr>"

text \<open>A kernel with 16-bit ticks of 10 ms (a tick rate of 100 Hz).\<close>

definition ten_ms_config :: "16 word config" where
  "ten_ms_config = \<lparr> portTICK_PERIOD_MS = 10, portMAX_DELAY = 65535,
     sizeof_StackType_t = 1, configMAX_PRIORITIES = 4,
     configSUPPORT_STATIC_ALLOCATION = 0, defined_portYIELD_FROM_ISR = False,
     defined_portEND_SWITCHING_ISR = False \<rparr>"

text \<open>\<open>k\<close> consecutive calls of \<^verbatim>\<open>post()\<close> on a semaphore.\<close>

fun posts :: "nat \<Rightarrow> 'u::len word Semaphore \<Rightarrow> 'u word Semaphore" where
  "posts 0 s = s"
| "posts (Suc k) s = posts k (Semaphore_post s)"

text \<open>
  A history of a queue: the calls of \<^verbatim>\<open>push(item)\<close> and \<^verbatim>\<open>pop(item)\<close> of all contexts in
  the order in which they complete. No other context uses the queue, so a call that
  blocks is never served and the history has no result. \<open>popped\<close> collects the values
  the calls of \<^verbatim>\<open>pop\<close> delivered; the variable passed to \<^verbatim>\<open>pop\<close> holds \<open>item\<close> before.
\<close>

datatype 'a queue_call = Push 'a | Pop

fun history ::
  "'t::len word config \<Rightarrow> 'a \<Rightarrow> 'a queue_call list \<Rightarrow> 'a Queue \<times> 'a list \<Rightarrow>
     ('a Queue \<times> 'a list) option" where
  "history cfg item [] (q, popped) = Some (q, popped)"
| "history cfg item (Push v # cs) (q, popped) =
     (case push cfg q v False of
        None \<Rightarrow> None
      | Some q' \<Rightarrow> history cfg item cs (q', popped))"
| "history cfg item (Pop # cs) (q, popped) =
     (case pop cfg q item None of
        None \<Rightarrow> None
      | Some (q', v) \<Rightarrow> history cfg item cs (q', popped @ [v]))"

text \<open>The values pushed by a history, in the order of the pushes.\<close>

fun pushed :: "'a queue_call list \<Rightarrow> 'a list" where
  "pushed [] = []"
| "pushed (Push v # cs) = v # pushed cs"
| "pushed (Pop # cs) = pushed cs"

text \<open>
  With \<open>n\<close> items outstanding, the history never has more than \<open>C\<close> items outstanding
  and never completes a pop when none is.
\<close>

fun outstanding_within :: "nat \<Rightarrow> nat \<Rightarrow> 'a queue_call list \<Rightarrow> bool" where
  "outstanding_within C n [] = True"
| "outstanding_within C n (Push v # cs) = (n < C \<and> outstanding_within C (Suc n) cs)"
| "outstanding_within C n (Pop # cs) = (0 < n \<and> outstanding_within C (n - 1) cs)"

text \<open>
  A batch of calls in an interrupt handler, after the prepare call: the object after
  each call. Each call has its own \<open>woken\<close>.
\<close>

fun pushes_from_interrupt :: "'a Queue \<Rightarrow> ('a \<times> bool) list \<Rightarrow> 'a Queue list" where
  "pushes_from_interrupt q [] = []"
| "pushes_from_interrupt q ((item, woken) # cs) =
     (let q' = snd (pushFromInterrupt q item woken) in q' # pushes_from_interrupt q' cs)"

fun semaphore_posts_from_interrupt ::
  "'u::len word Semaphore \<Rightarrow> bool list \<Rightarrow> 'u word Semaphore list" where
  "semaphore_posts_from_interrupt s [] = []"
| "semaphore_posts_from_interrupt s (woken # cs) =
     (let s' = Semaphore_postFromInterrupt s woken in s' # semaphore_posts_from_interrupt s' cs)"

fun task_posts_from_interrupt :: "Task \<Rightarrow> bool list \<Rightarrow> Task list option" where
  "task_posts_from_interrupt t [] = Some []"
| "task_posts_from_interrupt t (woken # cs) =
     (case Task_postFromInterrupt t woken of
        None \<Rightarrow> None
      | Some t' \<Rightarrow> map_option ((#) t') (task_posts_from_interrupt t' cs))"

section \<open>The example configuration\<close>

lemma avr_config_tick: "portTICK_PERIOD_MS avr_config = 16"
  by (simp add: avr_config_def)

lemma avr_config_priorities: "configMAX_PRIORITIES avr_config = 4"
  by (simp add: avr_config_def)

lemma avr_config_max_delay: "portMAX_DELAY avr_config = 65535"
  by (simp add: avr_config_def)

lemma avr_config_static: "configSUPPORT_STATIC_ALLOCATION avr_config = 0"
  by (simp add: avr_config_def)

lemma avr_yieldFromIsr: "yieldFromIsr avr_config = [TaskYIELD]"
  by (simp add: yieldFromIsr_def avr_config_def)

lemma narrow_tick_config_tick: "portTICK_PERIOD_MS narrow_tick_config = 1"
  by (simp add: narrow_tick_config_def)

lemma ten_ms_config_tick: "portTICK_PERIOD_MS ten_ms_config = 10"
  by (simp add: ten_ms_config_def)

section \<open>Conversion of milliseconds to ticks\<close>

lemma unat_ms_mod_tick:
  "unat (ms_mod_tick cfg (m::'w::len word)) = unat m mod unat (portTICK_PERIOD_MS cfg)"
proof -
  have "unat m mod unat (portTICK_PERIOD_MS cfg) \<le> unat m" by simp
  also have "\<dots> < 2 ^ LENGTH('w)" by simp
  finally show ?thesis by (simp add: ms_mod_tick_def unat_of_nat)
qed

lemma unat_ms_div_tick:
  "unat (ms_div_tick cfg (m::'w::len word) :: 't::len word) =
     (unat m div unat (portTICK_PERIOD_MS cfg)) mod 2 ^ LENGTH('t)"
  by (simp add: ms_div_tick_def unat_of_nat)

lemma ms_div_tick_below:
  "unat (m::'w::len word) < unat (portTICK_PERIOD_MS cfg) \<Longrightarrow> ms_div_tick cfg m = 0"
  by (simp add: ms_div_tick_def)

lemma ms_div_tick_eq_0_iff:
  fixes cfg :: "'t::len word config" and m :: "'w::len word"
  assumes "portTICK_PERIOD_MS cfg \<noteq> 0"
    and "unat m div unat (portTICK_PERIOD_MS cfg) < 2 ^ LENGTH('t)"
  shows "(ms_div_tick cfg m = (0 :: 't word)) = (unat m < unat (portTICK_PERIOD_MS cfg))"
proof -
  have tp: "0 < unat (portTICK_PERIOD_MS cfg)" using assms(1) by (simp add: unat_gt_0)
  have "(ms_div_tick cfg m = (0 :: 't word)) = (unat (ms_div_tick cfg m :: 't word) = 0)"
    by (simp add: unat_eq_0)
  also have "\<dots> = (unat m div unat (portTICK_PERIOD_MS cfg) = 0)"
    using assms(2) by (simp add: unat_ms_div_tick)
  also have "\<dots> = (unat m < unat (portTICK_PERIOD_MS cfg))"
    using tp by (simp add: div_eq_0_iff)
  finally show ?thesis .
qed

lemma ms_div_tick_exact:
  fixes cfg :: "'t::len word config" and m :: "'w::len word"
  assumes "unat m div unat (portTICK_PERIOD_MS cfg) < 2 ^ LENGTH('t)"
  shows "unat (ms_div_tick cfg m :: 't word) = unat m div unat (portTICK_PERIOD_MS cfg)"
  using assms by (simp add: unat_ms_div_tick)

lemma msleep_remainder_eq:
  "msleep_remainder cfg msecs remainder =
     (ms_mod_tick cfg (msecs + remainder),
      if ms_div_tick cfg (msecs + remainder) \<noteq> 0
      then [VTaskDelay (ms_div_tick cfg (msecs + remainder))] else [TaskYIELD])"
  by (simp add: msleep_remainder_def yield_def Let_def)

lemma scheduled_ms_append:
  "scheduled_ms cfg (a @ b) = scheduled_ms cfg a + scheduled_ms cfg b"
  by (simp add: scheduled_ms_def algebra_simps)

lemma scheduled_ms_msleep_remainder:
  "scheduled_ms cfg (snd (msleep_remainder cfg msecs r)) =
     unat (ms_div_tick cfg (msecs + r)) * unat (portTICK_PERIOD_MS cfg)"
  by (simp add: msleep_remainder_eq scheduled_ms_def)

lemma msleep_remainder_exact:
  fixes cfg :: "'t::len word config" and msecs r :: "'w::len word"
  assumes nowrap: "unat msecs + unat r < 2 ^ LENGTH('w)"
    and fits: "(unat msecs + unat r) div unat (portTICK_PERIOD_MS cfg) < 2 ^ LENGTH('t)"
  shows "scheduled_ms cfg (snd (msleep_remainder cfg msecs r))
           + unat (fst (msleep_remainder cfg msecs r)) = unat msecs + unat r"
proof -
  have s: "unat (msecs + r) = unat msecs + unat r"
    using nowrap by (simp add: unat_word_ariths)
  have q: "unat (ms_div_tick cfg (msecs + r) :: 't word)
             = (unat msecs + unat r) div unat (portTICK_PERIOD_MS cfg)"
    using fits by (simp add: unat_ms_div_tick s)
  have f: "fst (msleep_remainder cfg msecs r) = ms_mod_tick cfg (msecs + r)"
    by (simp add: msleep_remainder_eq)
  show ?thesis
    by (simp add: scheduled_ms_msleep_remainder f unat_ms_mod_tick q s)
qed

lemma msleep_repeat_Suc:
  "msleep_repeat cfg (Suc n) period r =
     (fst (msleep_repeat cfg n period (fst (msleep_remainder cfg period r))),
      snd (msleep_remainder cfg period r)
        @ snd (msleep_repeat cfg n period (fst (msleep_remainder cfg period r))))"
  by (simp add: case_prod_beta)

lemma msleep_repeat_sum:
  fixes cfg :: "'t::len word config" and period r :: "'w::len word"
  assumes tp: "portTICK_PERIOD_MS cfg \<noteq> 0"
    and nowrap: "unat period + unat (portTICK_PERIOD_MS cfg) \<le> 2 ^ LENGTH('w)"
    and fits: "(unat period + unat (portTICK_PERIOD_MS cfg)) div unat (portTICK_PERIOD_MS cfg)
                 < 2 ^ LENGTH('t)"
    and r: "unat r < unat (portTICK_PERIOD_MS cfg)"
  shows "scheduled_ms cfg (snd (msleep_repeat cfg n period r))
           + unat (fst (msleep_repeat cfg n period r)) = n * unat period + unat r
       \<and> unat (fst (msleep_repeat cfg n period r)) < unat (portTICK_PERIOD_MS cfg)"
  using r
proof (induction n arbitrary: r)
  case 0
  then show ?case by (simp add: scheduled_ms_def)
next
  case (Suc n)
  let ?tp = "unat (portTICK_PERIOD_MS cfg)"
  let ?r1 = "fst (msleep_remainder cfg period r)"
  let ?c1 = "snd (msleep_remainder cfg period r)"
  have tp0: "0 < ?tp" using tp by (simp add: unat_gt_0)
  have nw: "unat period + unat r < 2 ^ LENGTH('w)" using Suc.prems nowrap by linarith
  have "(unat period + unat r) div ?tp \<le> (unat period + ?tp) div ?tp"
    using Suc.prems by (intro div_le_mono) simp
  then have ft: "(unat period + unat r) div ?tp < 2 ^ LENGTH('t)" using fits by linarith
  have one: "scheduled_ms cfg ?c1 + unat ?r1 = unat period + unat r"
    by (rule msleep_remainder_exact [OF nw ft])
  have "?r1 = ms_mod_tick cfg (period + r)" by (simp add: msleep_remainder_eq)
  then have r1: "unat ?r1 < ?tp" using tp0 by (simp add: unat_ms_mod_tick)
  note ih = Suc.IH [OF r1]
  show ?case using ih one unfolding msleep_repeat_Suc by (simp add: scheduled_ms_append)
qed

lemma msleep_repeat_2:
  "msleep_repeat cfg 2 p r =
     (fst (msleep_remainder cfg p (fst (msleep_remainder cfg p r))),
      snd (msleep_remainder cfg p r)
        @ snd (msleep_remainder cfg p (fst (msleep_remainder cfg p r))))"
  by (simp add: numeral_2_eq_2 case_prod_beta)

lemma avr_msleep_65535_0:
  "msleep_remainder avr_config (65535::16 word) 0 = (15, [VTaskDelay 4095])"
  by (simp add: msleep_remainder_def ms_div_tick_def ms_mod_tick_def avr_config_def yield_def)

lemma avr_msleep_65535_15:
  "msleep_remainder avr_config (65535::16 word) 15 = (14, [TaskYIELD])"
  by (simp add: msleep_remainder_def ms_div_tick_def ms_mod_tick_def avr_config_def yield_def)

lemma avr_msleep_repeat_65535:
  "msleep_repeat avr_config 2 (65535::16 word) 0 = (14, [VTaskDelay 4095, TaskYIELD])"
  by (simp add: msleep_repeat_2 avr_msleep_65535_0 avr_msleep_65535_15)


section \<open>Sleeping without drift\<close>

text \<open>
  Claim C1, as amended. For every \<open>msecs\<close> and every prior \<open>remainder\<close> the
  remainder-tracking \<^verbatim>\<open>msleep\<close> adds the two as \<^verbatim>\<open>unsigned int\<close> (the sum wraps), asks the
  kernel to delay for the quotient of the sum by the tick period, converted to
  \<^verbatim>\<open>TickType_t\<close> (it yields when that is 0), and leaves the rest of the division in the
  accumulator. When the period \<open>P\<close> plus one tick period is representable in
  \<^verbatim>\<open>unsigned int\<close> and the number of ticks in \<^verbatim>\<open>TickType_t\<close>, and the accumulator
  starts below one tick period, then over any \<open>n\<close> successive calls for \<open>P\<close> the scheduled
  delay plus the final remainder is \<open>n * P\<close> plus the first remainder, and the final
  remainder is below one tick period: from an accumulator of 0 the scheduled delay is
  \<open>n * P\<close> minus the final remainder.
\<close>

theorem msleep_remainder_no_drift:
  fixes cfg :: "'t::len word config" and msecs remainder period r :: "'w::len word"
  shows "msleep_remainder cfg msecs remainder =
           (ms_mod_tick cfg (msecs + remainder),
            if ms_div_tick cfg (msecs + remainder) \<noteq> 0
            then [VTaskDelay (ms_div_tick cfg (msecs + remainder))] else [TaskYIELD])
       \<and> unat (ms_mod_tick cfg (msecs + remainder))
           = unat (msecs + remainder) mod unat (portTICK_PERIOD_MS cfg)
       \<and> unat (ms_div_tick cfg (msecs + remainder) :: 't word)
           = unat (msecs + remainder) div unat (portTICK_PERIOD_MS cfg) mod 2 ^ LENGTH('t)
       \<and> (portTICK_PERIOD_MS cfg \<noteq> 0
            \<and> unat period + unat (portTICK_PERIOD_MS cfg) \<le> 2 ^ LENGTH('w)
            \<and> (unat period + unat (portTICK_PERIOD_MS cfg)) div unat (portTICK_PERIOD_MS cfg)
                 < 2 ^ LENGTH('t)
            \<and> unat r < unat (portTICK_PERIOD_MS cfg) \<longrightarrow>
          scheduled_ms cfg (snd (msleep_repeat cfg n period r))
              + unat (fst (msleep_repeat cfg n period r)) = n * unat period + unat r
          \<and> unat (fst (msleep_repeat cfg n period r)) < unat (portTICK_PERIOD_MS cfg))"
  using msleep_repeat_sum [of cfg period r n]
  by (simp add: msleep_remainder_eq unat_ms_mod_tick unat_ms_div_tick)

text \<open>Two sleeps of 100 ms with ticks of 16 ms: 12 ticks and a remainder of 8 ms.\<close>

theorem msleep_remainder_no_drift_witness:
  "portTICK_PERIOD_MS avr_config \<noteq> 0
   \<and> unat (100 :: 16 word) + unat (portTICK_PERIOD_MS avr_config) \<le> 2 ^ LENGTH(16)
   \<and> unat (0 :: 16 word) < unat (portTICK_PERIOD_MS avr_config)
   \<and> scheduled_ms avr_config (snd (msleep_repeat avr_config 2 (100 :: 16 word) 0))
       + unat (fst (msleep_repeat avr_config 2 (100 :: 16 word) 0)) = 2 * 100 + 0
   \<and> unat (fst (msleep_repeat avr_config 2 (100 :: 16 word) 0)) < 16"
  using msleep_remainder_no_drift [where cfg = avr_config and period = "100 :: 16 word"
      and r = 0 and n = 2 and msecs = 0 and remainder = 0]
  by (simp add: avr_config_tick)

text \<open>
  The claim as stated fails when the sum wraps: two sleeps of 65535 ms with 16-bit
  \<^verbatim>\<open>unsigned int\<close> and ticks of 16 ms. The first leaves 15 ms; in the second
  \<open>65535 + 15\<close> wraps to 14, which is no tick at all. The kernel is asked for 65520 ms,
  not for \<open>2 * 65535 - 14\<close>.
\<close>

theorem msleep_remainder_drift_counterexample:
  "scheduled_ms avr_config (snd (msleep_repeat avr_config 2 (65535 :: 16 word) 0))
     \<noteq> 2 * 65535 - unat (fst (msleep_repeat avr_config 2 (65535 :: 16 word) 0))"
  unfolding avr_msleep_repeat_65535 by (simp add: scheduled_ms_def avr_config_def)

section \<open>Sleeping for less than a tick\<close>

text \<open>
  Claim C2, as amended. \<^verbatim>\<open>msleep\<close> converts the milliseconds to ticks as the source
  does: in the remainder-tracking variant it first adds the carried remainder as
  \<^verbatim>\<open>unsigned int\<close> (the sum wraps), and it converts the quotient by the tick period to
  \<^verbatim>\<open>TickType_t\<close>. When that tick count is zero, as it is whenever the milliseconds
  (plus the remainder) are less than one tick period, the call yields exactly once and
  does not call the kernel delay; when it is not zero the call delays for that tick
  count and does not yield. When the sum does not wrap and the quotient is
  representable in \<^verbatim>\<open>TickType_t\<close>, the tick count is zero only for less than one tick
  period, and milliseconds (plus the remainder) of at least one tick period are delayed
  for their whole-tick count, the quotient by the tick period, which is at least 1.
\<close>

theorem msleep_yield_or_delay:
  fixes cfg :: "'t::len word config" and msecs remainder :: "'w::len word"
  shows "msleep cfg msecs =
           (if ms_div_tick cfg msecs = 0 then [TaskYIELD]
            else [VTaskDelay (ms_div_tick cfg msecs)])
       \<and> snd (msleep_remainder cfg msecs remainder) =
           (if ms_div_tick cfg (msecs + remainder) = 0 then [TaskYIELD]
            else [VTaskDelay (ms_div_tick cfg (msecs + remainder))])
       \<and> (unat msecs < unat (portTICK_PERIOD_MS cfg) \<longrightarrow> msleep cfg msecs = [TaskYIELD])
       \<and> (unat msecs + unat remainder < unat (portTICK_PERIOD_MS cfg) \<longrightarrow>
            snd (msleep_remainder cfg msecs remainder) = [TaskYIELD])
       \<and> (portTICK_PERIOD_MS cfg \<noteq> 0
            \<and> unat msecs div unat (portTICK_PERIOD_MS cfg) < 2 ^ LENGTH('t) \<longrightarrow>
            (ms_div_tick cfg msecs = (0 :: 't word)) = (unat msecs < unat (portTICK_PERIOD_MS cfg)))
       \<and> (portTICK_PERIOD_MS cfg \<noteq> 0
            \<and> unat msecs + unat remainder < 2 ^ LENGTH('w)
            \<and> (unat msecs + unat remainder) div unat (portTICK_PERIOD_MS cfg) < 2 ^ LENGTH('t) \<longrightarrow>
            (ms_div_tick cfg (msecs + remainder) = (0 :: 't word))
              = (unat msecs + unat remainder < unat (portTICK_PERIOD_MS cfg)))
       \<and> (portTICK_PERIOD_MS cfg \<noteq> 0
            \<and> unat msecs div unat (portTICK_PERIOD_MS cfg) < 2 ^ LENGTH('t)
            \<and> unat (portTICK_PERIOD_MS cfg) \<le> unat msecs \<longrightarrow>
            msleep cfg msecs = [VTaskDelay (ms_div_tick cfg msecs)]
            \<and> unat (ms_div_tick cfg msecs :: 't word) = unat msecs div unat (portTICK_PERIOD_MS cfg)
            \<and> 1 \<le> unat msecs div unat (portTICK_PERIOD_MS cfg))
       \<and> (portTICK_PERIOD_MS cfg \<noteq> 0
            \<and> unat msecs + unat remainder < 2 ^ LENGTH('w)
            \<and> (unat msecs + unat remainder) div unat (portTICK_PERIOD_MS cfg) < 2 ^ LENGTH('t)
            \<and> unat (portTICK_PERIOD_MS cfg) \<le> unat msecs + unat remainder \<longrightarrow>
            snd (msleep_remainder cfg msecs remainder)
              = [VTaskDelay (ms_div_tick cfg (msecs + remainder))]
            \<and> unat (ms_div_tick cfg (msecs + remainder) :: 't word)
                = (unat msecs + unat remainder) div unat (portTICK_PERIOD_MS cfg)
            \<and> 1 \<le> (unat msecs + unat remainder) div unat (portTICK_PERIOD_MS cfg))"
proof -
  let ?tp = "unat (portTICK_PERIOD_MS cfg)"
  have a: "msleep cfg msecs =
      (if ms_div_tick cfg msecs = 0 then [TaskYIELD] else [VTaskDelay (ms_div_tick cfg msecs)])"
    by (simp add: msleep_def yield_def Let_def)
  have b: "snd (msleep_remainder cfg msecs remainder) =
           (if ms_div_tick cfg (msecs + remainder) = 0 then [TaskYIELD]
            else [VTaskDelay (ms_div_tick cfg (msecs + remainder))])"
    by (simp add: msleep_remainder_eq)
  have c: "msleep cfg msecs = [TaskYIELD]" if "unat msecs < ?tp"
    using ms_div_tick_below [OF that] by (simp add: a)
  have d: "snd (msleep_remainder cfg msecs remainder) = [TaskYIELD]"
    if h: "unat msecs + unat remainder < ?tp"
  proof -
    have "unat (msecs + remainder) \<le> unat msecs + unat remainder"
      by (simp add: unat_word_ariths)
    then have "unat (msecs + remainder) < ?tp" using h by linarith
    then have "ms_div_tick cfg (msecs + remainder) = 0" by (rule ms_div_tick_below)
    then show ?thesis by (simp add: b)
  qed
  have e: "(ms_div_tick cfg msecs = (0 :: 't word)) = (unat msecs < ?tp)"
    if "portTICK_PERIOD_MS cfg \<noteq> 0" "unat msecs div ?tp < 2 ^ LENGTH('t)"
    using that by (rule ms_div_tick_eq_0_iff)
  have s: "unat (msecs + remainder) = unat msecs + unat remainder"
    if "unat msecs + unat remainder < 2 ^ LENGTH('w)"
    using that by (simp add: unat_word_ariths)
  have f: "(ms_div_tick cfg (msecs + remainder) = (0 :: 't word))
              = (unat msecs + unat remainder < ?tp)"
    if h: "portTICK_PERIOD_MS cfg \<noteq> 0" "unat msecs + unat remainder < 2 ^ LENGTH('w)"
      "(unat msecs + unat remainder) div ?tp < 2 ^ LENGTH('t)"
    using ms_div_tick_eq_0_iff [of cfg "msecs + remainder"] h(1,3) by (simp add: s [OF h(2)])
  have g: "msleep cfg msecs = [VTaskDelay (ms_div_tick cfg msecs)]
            \<and> unat (ms_div_tick cfg msecs :: 't word) = unat msecs div ?tp
            \<and> 1 \<le> unat msecs div ?tp"
    if h: "portTICK_PERIOD_MS cfg \<noteq> 0" "unat msecs div ?tp < 2 ^ LENGTH('t)" "?tp \<le> unat msecs"
  proof -
    have tp: "0 < ?tp" using h(1) by (simp add: unat_gt_0)
    have nz: "ms_div_tick cfg msecs \<noteq> (0 :: 't word)" using e [OF h(1,2)] h(3) by simp
    have q: "1 \<le> unat msecs div ?tp" using tp h(3) by (simp add: div_greater_zero_iff Suc_le_eq)
    show ?thesis using nz q ms_div_tick_exact [OF h(2)] by (simp add: a)
  qed
  have i: "snd (msleep_remainder cfg msecs remainder)
              = [VTaskDelay (ms_div_tick cfg (msecs + remainder))]
            \<and> unat (ms_div_tick cfg (msecs + remainder) :: 't word)
                = (unat msecs + unat remainder) div ?tp
            \<and> 1 \<le> (unat msecs + unat remainder) div ?tp"
    if h: "portTICK_PERIOD_MS cfg \<noteq> 0" "unat msecs + unat remainder < 2 ^ LENGTH('w)"
      "(unat msecs + unat remainder) div ?tp < 2 ^ LENGTH('t)"
      "?tp \<le> unat msecs + unat remainder"
  proof -
    have tp: "0 < ?tp" using h(1) by (simp add: unat_gt_0)
    have nz: "ms_div_tick cfg (msecs + remainder) \<noteq> (0 :: 't word)"
      using f [OF h(1,2,3)] h(4) by simp
    have q: "1 \<le> (unat msecs + unat remainder) div ?tp"
      using tp h(4) by (simp add: div_greater_zero_iff Suc_le_eq)
    have x: "unat (ms_div_tick cfg (msecs + remainder) :: 't word)
                = (unat msecs + unat remainder) div ?tp"
      using ms_div_tick_exact [of "msecs + remainder" cfg] h(3) by (simp add: s [OF h(2)])
    show ?thesis using nz q x by (simp add: b)
  qed
  show ?thesis using a b c d e f g i by blast
qed

lemma avr_ms_div_tick_100: "ms_div_tick avr_config (100 :: 16 word) = 6"
  by (simp add: ms_div_tick_def avr_config_tick)

lemma avr_ms_div_tick_5: "ms_div_tick avr_config (5 :: 16 word) = 0"
  by (simp add: ms_div_tick_def avr_config_tick)

text \<open>With ticks of 16 ms: 5 ms yield, 100 ms are 6 ticks.\<close>

theorem msleep_yield_or_delay_witness:
  "unat (5 :: 16 word) < unat (portTICK_PERIOD_MS avr_config)
   \<and> msleep avr_config (5 :: 16 word) = [TaskYIELD]
   \<and> unat (3 :: 16 word) + unat (2 :: 16 word) < unat (portTICK_PERIOD_MS avr_config)
   \<and> snd (msleep_remainder avr_config (3 :: 16 word) 2) = [TaskYIELD]
   \<and> portTICK_PERIOD_MS avr_config \<noteq> 0
   \<and> unat (100 :: 16 word) div unat (portTICK_PERIOD_MS avr_config) < 2 ^ LENGTH(16)
   \<and> unat (portTICK_PERIOD_MS avr_config) \<le> unat (100 :: 16 word)
   \<and> msleep avr_config (100 :: 16 word) = [VTaskDelay 6]
   \<and> unat (95 :: 16 word) + unat (5 :: 16 word) < 2 ^ LENGTH(16)
   \<and> (unat (95 :: 16 word) + unat (5 :: 16 word)) div unat (portTICK_PERIOD_MS avr_config)
        < 2 ^ LENGTH(16)
   \<and> unat (portTICK_PERIOD_MS avr_config) \<le> unat (95 :: 16 word) + unat (5 :: 16 word)
   \<and> snd (msleep_remainder avr_config (95 :: 16 word) 5) = [VTaskDelay 6]"
proof -
  have y1: "unat (5 :: 16 word) < unat (portTICK_PERIOD_MS avr_config)"
    by (simp add: avr_config_tick)
  have y2: "unat (3 :: 16 word) + unat (2 :: 16 word) < unat (portTICK_PERIOD_MS avr_config)"
    by (simp add: avr_config_tick)
  have tp: "portTICK_PERIOD_MS avr_config \<noteq> 0"
    by (simp add: avr_config_tick)
  have d1: "unat (100 :: 16 word) div unat (portTICK_PERIOD_MS avr_config) < 2 ^ LENGTH(16)"
    by (simp add: avr_config_tick)
  have d2: "unat (portTICK_PERIOD_MS avr_config) \<le> unat (100 :: 16 word)"
    by (simp add: avr_config_tick)
  have r1: "unat (95 :: 16 word) + unat (5 :: 16 word) < 2 ^ LENGTH(16)"
    by simp
  have r2: "(unat (95 :: 16 word) + unat (5 :: 16 word)) div unat (portTICK_PERIOD_MS avr_config)
        < 2 ^ LENGTH(16)"
    by (simp add: avr_config_tick)
  have r3: "unat (portTICK_PERIOD_MS avr_config) \<le> unat (95 :: 16 word) + unat (5 :: 16 word)"
    by (simp add: avr_config_tick)
  have six: "ms_div_tick avr_config (100 :: 16 word) = (6 :: 16 word)"
    by (rule avr_ms_div_tick_100)
  have sum: "(95 :: 16 word) + 5 = 100"
    by simp
  have 1: "msleep avr_config (5 :: 16 word) = [TaskYIELD]"
    using msleep_yield_or_delay [of avr_config "5 :: 16 word" 0] y1 by blast
  have 2: "snd (msleep_remainder avr_config (3 :: 16 word) 2) = [TaskYIELD]"
    using msleep_yield_or_delay [of avr_config "3 :: 16 word" 2] y2 by blast
  have "msleep avr_config (100 :: 16 word) = [VTaskDelay (ms_div_tick avr_config (100 :: 16 word))]"
    using msleep_yield_or_delay [of avr_config "100 :: 16 word" 0] tp d1 d2 by blast
  then have 3: "msleep avr_config (100 :: 16 word) = [VTaskDelay 6]"
    by (simp only: six)
  have "snd (msleep_remainder avr_config (95 :: 16 word) 5)
          = [VTaskDelay (ms_div_tick avr_config ((95 :: 16 word) + 5))]"
    using msleep_yield_or_delay [of avr_config "95 :: 16 word" 5] tp r1 r2 r3 by blast
  then have 4: "snd (msleep_remainder avr_config (95 :: 16 word) 5) = [VTaskDelay 6]"
    by (simp only: sum six)
  show ?thesis using y1 y2 tp d1 d2 r1 r2 r3 1 2 3 4 by blast
qed

lemma narrow_msleep_65536: "msleep narrow_tick_config (65536 :: 32 word) = [TaskYIELD]"
  by (simp add: msleep_def ms_div_tick_def narrow_tick_config_tick yield_def)

text \<open>
  The claim as stated fails where the conversion loses the milliseconds. With 16-bit
  \<^verbatim>\<open>unsigned int\<close> and ticks of 16 ms, 65535 ms with 15 ms carried are 4096 ticks, but
  the sum wraps to 14 and the call yields. With 32-bit \<^verbatim>\<open>unsigned int\<close> and 16-bit ticks
  of 1 ms, 65536 ms are 65536 ticks, which \<^verbatim>\<open>TickType_t\<close> cuts to 0, and the call yields.
\<close>

theorem msleep_wrap_counterexample:
  "unat (portTICK_PERIOD_MS avr_config) \<le> unat (65535 :: 16 word) + unat (15 :: 16 word)
   \<and> (unat (65535 :: 16 word) + unat (15 :: 16 word)) div unat (portTICK_PERIOD_MS avr_config)
       = 4096
   \<and> snd (msleep_remainder avr_config (65535 :: 16 word) 15) = [TaskYIELD]
   \<and> unat (portTICK_PERIOD_MS narrow_tick_config) \<le> unat (65536 :: 32 word)
   \<and> unat (65536 :: 32 word) div unat (portTICK_PERIOD_MS narrow_tick_config) = 65536
   \<and> msleep narrow_tick_config (65536 :: 32 word) = [TaskYIELD]"
  by (simp add: avr_msleep_65535_15 narrow_msleep_65536 avr_config_tick narrow_tick_config_tick)

section \<open>The priority of a started task\<close>

lemma request_of_start:
  "uxPriority (request_of (snd (snd (start cfg STACK_SIZE t priority name created)))) =
     (if configMAX_PRIORITIES cfg \<le> uint priority
      then word_of_int (configMAX_PRIORITIES cfg - 1) else priority)"
  by (simp add: start_def Let_def)

lemma uint_clamped:
  fixes priority :: "8 word"
  assumes "0 < m" and "m \<le> uint priority"
  shows "uint (word_of_int (m - 1) :: 8 word) = m - 1"
proof -
  have "uint priority < 2 ^ LENGTH(8)" by (rule uint_lt2p)
  then have "m - 1 < 2 ^ LENGTH(8)" using assms by linarith
  moreover have "0 \<le> m - 1" using assms by linarith
  ultimately have "(m - 1) mod 2 ^ LENGTH(8) = m - 1" by (intro mod_pos_pos_trivial)
  then show ?thesis by (simp only: uint_word_of_int)
qed

text \<open>
  Claim C4. For every priority argument \<^verbatim>\<open>start\<close> passes the kernel a priority in the
  range from 0 to \<^verbatim>\<open>configMAX_PRIORITIES - 1\<close>: a priority of \<^verbatim>\<open>configMAX_PRIORITIES\<close>
  or more becomes \<^verbatim>\<open>configMAX_PRIORITIES - 1\<close>, a smaller one is passed unchanged. The
  kernel has a priority at all: \<^verbatim>\<open>configMAX_PRIORITIES\<close> is at least 1.
\<close>

theorem start_priority_in_range:
  fixes cfg :: "'t::len word config"
  assumes "0 < configMAX_PRIORITIES cfg"
  shows "0 \<le> uint (uxPriority (request_of (snd (snd (start cfg STACK_SIZE t priority name created)))))
       \<and> uint (uxPriority (request_of (snd (snd (start cfg STACK_SIZE t priority name created)))))
           \<le> configMAX_PRIORITIES cfg - 1
       \<and> (configMAX_PRIORITIES cfg \<le> uint priority \<longrightarrow>
            uint (uxPriority (request_of (snd (snd (start cfg STACK_SIZE t priority name created)))))
              = configMAX_PRIORITIES cfg - 1)
       \<and> (uint priority < configMAX_PRIORITIES cfg \<longrightarrow>
            uxPriority (request_of (snd (snd (start cfg STACK_SIZE t priority name created))))
              = priority)"
proof (cases "configMAX_PRIORITIES cfg \<le> uint priority")
  case True
  have "uxPriority (request_of (snd (snd (start cfg STACK_SIZE t priority name created))))
          = word_of_int (configMAX_PRIORITIES cfg - 1)"
    using True by (simp only: request_of_start if_True)
  then have "uint (uxPriority (request_of (snd (snd (start cfg STACK_SIZE t priority name created)))))
          = configMAX_PRIORITIES cfg - 1"
    using uint_clamped [OF assms True] by (simp only:)
  then show ?thesis using assms True by simp
next
  case False
  then show ?thesis by (simp add: request_of_start)
qed

text \<open>With four priorities: 200 becomes 3, and 2 stays.\<close>

theorem start_priority_in_range_witness:
  "0 < configMAX_PRIORITIES avr_config
   \<and> uint (uxPriority (request_of (snd (snd (start avr_config 192 (Task_new 0) 200 ''worker'' None))))) = 3
   \<and> uxPriority (request_of (snd (snd (start avr_config 192 (Task_new 0) 2 ''worker'' None)))) = 2"
  using start_priority_in_range [of avr_config 192 "Task_new 0" 200 "''worker''" None]
    start_priority_in_range [of avr_config 192 "Task_new 0" 2 "''worker''" None]
  by (simp add: avr_config_priorities)

section \<open>The remainder after a timed operation\<close>

lemma await_0: "await cfg 0 served = Some False"
  by (simp add: await_def)

lemma Task_wait_remainder_rest:
  "Task_wait_remainder cfg k msecs remainder given = Some (res, r', k') \<Longrightarrow>
     r' = (if res then 0 else ms_mod_tick cfg (msecs + remainder))"
  by (auto simp: Task_wait_remainder_def Let_def split: option.splits prod.splits if_splits)

lemma push_remainder_rest:
  "push_remainder cfg q item msecs remainder received = Some (res, r', q') \<Longrightarrow>
     r' = (if res then 0 else ms_mod_tick cfg (msecs + remainder))"
  by (auto simp: push_remainder_def Let_def split: option.splits prod.splits if_splits)

lemma pop_remainder_rest:
  "pop_remainder cfg q msecs remainder item sent = Some (res, r', q', item') \<Longrightarrow>
     r' = (if res then 0 else ms_mod_tick cfg (msecs + remainder))"
  by (auto simp: pop_remainder_def Let_def split: option.splits prod.splits if_splits)

lemma Semaphore_wait_remainder_rest:
  "Semaphore_wait_remainder cfg s msecs remainder given = Some (res, r', s') \<Longrightarrow>
     r' = (if res then 0 else ms_mod_tick cfg (msecs + remainder))"
  by (auto simp: Semaphore_wait_remainder_def Let_def split: option.splits prod.splits if_splits)

lemma unat_rest:
  "r' = (if res then 0 else ms_mod_tick cfg m) \<Longrightarrow>
     unat r' = (if res then 0 else unat m mod unat (portTICK_PERIOD_MS cfg))"
  by (simp add: unat_ms_mod_tick)

lemma unat_rest_exact:
  fixes msecs remainder r' :: "'w::len word"
  assumes "unat r' = (if res then 0
                      else unat (msecs + remainder) mod unat (portTICK_PERIOD_MS cfg))"
  shows "unat r' = (if res then 0
                    else unat (msecs + remainder) mod unat (portTICK_PERIOD_MS cfg))
       \<and> (unat msecs + unat remainder < 2 ^ LENGTH('w) \<longrightarrow>
            unat r' = (if res then 0
                       else (unat msecs + unat remainder) mod unat (portTICK_PERIOD_MS cfg)))"
proof -
  have "unat (msecs + remainder) = unat msecs + unat remainder"
    if "unat msecs + unat remainder < 2 ^ LENGTH('w)"
    using that by (simp add: unat_word_ariths)
  then show ?thesis using assms by simp
qed

text \<open>
  Claim C10, as amended. Every remainder-tracking timed operation (\<^verbatim>\<open>Task::wait\<close>,
  \<^verbatim>\<open>Queue::push\<close>, \<^verbatim>\<open>Queue::pop\<close>, \<^verbatim>\<open>Semaphore::wait\<close>) that returns true leaves 0 in the
  caller's accumulator; one that returns false leaves the rest of the division by the
  tick period of the sum of \<^verbatim>\<open>msecs\<close> and the old remainder as the source computes it,
  in \<^verbatim>\<open>unsigned int\<close>, where it wraps. When the sum is representable in \<^verbatim>\<open>unsigned int\<close>
  that is \<open>(msecs + remainder) mod tickPeriod\<close>.
\<close>

theorem remainder_reset_on_success:
  fixes cfg :: "'t::len word config" and msecs remainder :: "'w::len word"
    and s :: "'u::len word Semaphore"
  shows "(Task_wait_remainder cfg k msecs remainder given = Some (res, r', k') \<longrightarrow>
            unat r' = (if res then 0
                       else unat (msecs + remainder) mod unat (portTICK_PERIOD_MS cfg))
            \<and> (unat msecs + unat remainder < 2 ^ LENGTH('w) \<longrightarrow>
                 unat r' = (if res then 0
                            else (unat msecs + unat remainder)
                                   mod unat (portTICK_PERIOD_MS cfg))))
       \<and> (push_remainder cfg q item msecs remainder received = Some (res, r', q') \<longrightarrow>
            unat r' = (if res then 0
                       else unat (msecs + remainder) mod unat (portTICK_PERIOD_MS cfg))
            \<and> (unat msecs + unat remainder < 2 ^ LENGTH('w) \<longrightarrow>
                 unat r' = (if res then 0
                            else (unat msecs + unat remainder)
                                   mod unat (portTICK_PERIOD_MS cfg))))
       \<and> (pop_remainder cfg q msecs remainder item sent = Some (res, r', q', item') \<longrightarrow>
            unat r' = (if res then 0
                       else unat (msecs + remainder) mod unat (portTICK_PERIOD_MS cfg))
            \<and> (unat msecs + unat remainder < 2 ^ LENGTH('w) \<longrightarrow>
                 unat r' = (if res then 0
                            else (unat msecs + unat remainder)
                                   mod unat (portTICK_PERIOD_MS cfg))))
       \<and> (Semaphore_wait_remainder cfg s msecs remainder given = Some (res, r', s') \<longrightarrow>
            unat r' = (if res then 0
                       else unat (msecs + remainder) mod unat (portTICK_PERIOD_MS cfg))
            \<and> (unat msecs + unat remainder < 2 ^ LENGTH('w) \<longrightarrow>
                 unat r' = (if res then 0
                            else (unat msecs + unat remainder)
                                   mod unat (portTICK_PERIOD_MS cfg))))"
  using Task_wait_remainder_rest
      [THEN unat_rest, THEN unat_rest_exact, of cfg k msecs remainder given res r' k']
    push_remainder_rest
      [THEN unat_rest, THEN unat_rest_exact, of cfg q item msecs remainder received res r' q']
    pop_remainder_rest
      [THEN unat_rest, THEN unat_rest_exact, of cfg q msecs remainder item sent res r' q' item']
    Semaphore_wait_remainder_rest
      [THEN unat_rest, THEN unat_rest_exact, of cfg s msecs remainder given res r' s']
  by blast

lemma avr_ms_div_tick_105: "ms_div_tick avr_config (105 :: 16 word) = 6"
  by (simp add: ms_div_tick_def avr_config_tick)

lemma avr_ms_mod_tick_105: "ms_mod_tick avr_config (105 :: 16 word) = 9"
  by (simp add: ms_mod_tick_def avr_config_tick)

lemma avr_await_6: "await avr_config 6 served = Some served"
  by (simp add: await_def avr_config_max_delay)

lemma avr_wait_timeout:
  "Task_wait_remainder avr_config \<lparr>ulNotifiedValue = 0\<rparr> (100 :: 16 word) 5 False
     = Some (False, 9, \<lparr>ulNotifiedValue = 0\<rparr>)"
  by (simp add: Task_wait_remainder_def ulTaskNotifyTake_def avr_await_6
      avr_ms_div_tick_105 avr_ms_mod_tick_105)

lemma avr_wait_success:
  "Task_wait_remainder avr_config \<lparr>ulNotifiedValue = 0\<rparr> (100 :: 16 word) 5 True
     = Some (True, 0, \<lparr>ulNotifiedValue = 0\<rparr>)"
  by (simp add: Task_wait_remainder_def ulTaskNotifyTake_def avr_await_6
      avr_ms_div_tick_105 avr_ms_mod_tick_105)

lemma avr_pop_timeout:
  "pop_remainder avr_config (Queue_new 1 0 0) (100 :: 16 word) 5 (7 :: nat) None
     = Some (False, 9, Queue_new 1 0 0, 7)"
  by (simp add: pop_remainder_def xQueueReceive_def avr_await_6 Queue_new_def xQueueCreate_def
      store_def errQUEUE_EMPTY_def pdTRUE_def avr_ms_div_tick_105 avr_ms_mod_tick_105)

lemma avr_push_success:
  "push_remainder avr_config (Queue_new 1 0 0) (7 :: nat) (100 :: 16 word) 5 False
     = Some (True, 0, (Queue_new 1 0 0)\<lparr>queue_handle := \<lparr>items = [7], uxLength = 1\<rparr>\<rparr>)"
  by (simp add: push_remainder_def xQueueSend_def Queue_new_def xQueueCreate_def
      pdTRUE_def avr_ms_div_tick_105 avr_ms_mod_tick_105)

lemma avr_semaphore_timeout:
  "Semaphore_wait_remainder avr_config (Semaphore_new True 0 :: 8 word Semaphore)
       (100 :: 16 word) 5 False
     = Some (False, 9, Semaphore_new True 0)"
  by (simp add: Semaphore_wait_remainder_def xSemaphoreTake_def avr_await_6 Semaphore_new_def
      xSemaphoreCreateBinary_def pdTRUE_def pdFALSE_def avr_ms_div_tick_105 avr_ms_mod_tick_105)

lemma avr_pop_success:
  "pop_remainder avr_config (Queue_new 1 0 0) (100 :: 16 word) 5 (7 :: nat) (Some 8)
     = Some (True, 0, Queue_new 1 0 0, 8)"
  by (simp add: pop_remainder_def xQueueReceive_def avr_await_6 Queue_new_def xQueueCreate_def
      store_def errQUEUE_EMPTY_def pdTRUE_def avr_ms_div_tick_105 avr_ms_mod_tick_105)

lemma avr_semaphore_success:
  "Semaphore_wait_remainder avr_config (Semaphore_new True 0 :: 8 word Semaphore)
       (100 :: 16 word) 5 True
     = Some (True, 0, Semaphore_new True 0)"
  by (simp add: Semaphore_wait_remainder_def xSemaphoreTake_def avr_await_6 Semaphore_new_def
      xSemaphoreCreateBinary_def pdTRUE_def pdFALSE_def avr_ms_div_tick_105 avr_ms_mod_tick_105)

lemma avr_push_timeout:
  "push_remainder avr_config (Queue_new 0 0 0) (7 :: nat) (100 :: 16 word) 5 False
     = Some (False, 9, Queue_new 0 0 0)"
  by (simp add: push_remainder_def xQueueSend_def avr_await_6 Queue_new_def xQueueCreate_def
      pdTRUE_def errQUEUE_FULL_def avr_ms_div_tick_105 avr_ms_mod_tick_105)

text \<open>
  With ticks of 16 ms and 100 ms requested with 5 ms carried: each operation that times
  out after 6 ticks leaves 9 ms, each that is served leaves 0.
\<close>

theorem remainder_reset_on_success_witness:
  "unat (100 :: 16 word) + unat (5 :: 16 word) < 2 ^ LENGTH(16)
   \<and> Task_wait_remainder avr_config \<lparr>ulNotifiedValue = 0\<rparr> (100 :: 16 word) 5 False
     = Some (False, 9, \<lparr>ulNotifiedValue = 0\<rparr>)
   \<and> push_remainder avr_config (Queue_new 0 0 0) (7 :: nat) (100 :: 16 word) 5 False
     = Some (False, 9, Queue_new 0 0 0)
   \<and> pop_remainder avr_config (Queue_new 1 0 0) (100 :: 16 word) 5 (7 :: nat) None
     = Some (False, 9, Queue_new 1 0 0, 7)
   \<and> Semaphore_wait_remainder avr_config (Semaphore_new True 0 :: 8 word Semaphore)
       (100 :: 16 word) 5 False
     = Some (False, 9, Semaphore_new True 0)
   \<and> unat (9 :: 16 word)
       = (unat (100 :: 16 word) + unat (5 :: 16 word)) mod unat (portTICK_PERIOD_MS avr_config)
   \<and> Task_wait_remainder avr_config \<lparr>ulNotifiedValue = 0\<rparr> (100 :: 16 word) 5 True
     = Some (True, 0, \<lparr>ulNotifiedValue = 0\<rparr>)
   \<and> push_remainder avr_config (Queue_new 1 0 0) (7 :: nat) (100 :: 16 word) 5 False
     = Some (True, 0, (Queue_new 1 0 0)\<lparr>queue_handle := \<lparr>items = [7], uxLength = 1\<rparr>\<rparr>)
   \<and> pop_remainder avr_config (Queue_new 1 0 0) (100 :: 16 word) 5 (7 :: nat) (Some 8)
     = Some (True, 0, Queue_new 1 0 0, 8)
   \<and> Semaphore_wait_remainder avr_config (Semaphore_new True 0 :: 8 word Semaphore)
       (100 :: 16 word) 5 True
     = Some (True, 0, Semaphore_new True 0)
   \<and> unat (0 :: 16 word) = 0"
proof -
  have nw: "unat (100 :: 16 word) + unat (5 :: 16 word) < 2 ^ LENGTH(16)"
    by simp
  note timeout = remainder_reset_on_success [where cfg = avr_config
      and k = "\<lparr>ulNotifiedValue = 0\<rparr>" and msecs = "100 :: 16 word" and remainder = 5
      and given = False and res = False and r' = 9 and k' = "\<lparr>ulNotifiedValue = 0\<rparr>"
      and q = "Queue_new 1 0 0" and item = "7 :: nat" and received = False and sent = None
      and item' = "7 :: nat" and q' = "Queue_new 1 0 0"
      and s = "Semaphore_new True 0 :: 8 word Semaphore" and s' = "Semaphore_new True 0"]
  note success = remainder_reset_on_success [where cfg = avr_config
      and k = "\<lparr>ulNotifiedValue = 0\<rparr>" and msecs = "100 :: 16 word" and remainder = 5
      and given = True and res = True and r' = 0 and k' = "\<lparr>ulNotifiedValue = 0\<rparr>"
      and q = "Queue_new 1 0 0" and item = "7 :: nat" and received = False and sent = "Some 8"
      and item' = "8 :: nat" and q' = "Queue_new 1 0 0"
      and s = "Semaphore_new True 0 :: 8 word Semaphore" and s' = "Semaphore_new True 0"]
  have "unat (9 :: 16 word)
       = (if False then 0
          else (unat (100 :: 16 word) + unat (5 :: 16 word))
                 mod unat (portTICK_PERIOD_MS avr_config))"
    using timeout avr_wait_timeout nw by blast
  then have nine: "unat (9 :: 16 word)
       = (unat (100 :: 16 word) + unat (5 :: 16 word)) mod unat (portTICK_PERIOD_MS avr_config)"
    by (simp only: if_False)
  have "unat (0 :: 16 word) = (if True then 0
          else (unat (100 :: 16 word) + unat (5 :: 16 word))
                 mod unat (portTICK_PERIOD_MS avr_config))"
    using success avr_pop_success nw by blast
  then have zero: "unat (0 :: 16 word) = 0"
    by (simp only: if_True)
  show ?thesis
    using nw nine zero avr_wait_timeout avr_push_timeout avr_pop_timeout avr_semaphore_timeout
      avr_wait_success avr_push_success avr_pop_success avr_semaphore_success
    by blast
qed

lemma ten_ms_wait_wrapped:
  "Task_wait_remainder ten_ms_config \<lparr>ulNotifiedValue = 0\<rparr> (65535 :: 16 word) 2 False
     = Some (False, 1, \<lparr>ulNotifiedValue = 0\<rparr>)"
  by (simp add: Task_wait_remainder_def ulTaskNotifyTake_def await_def ms_div_tick_def
      ms_mod_tick_def ten_ms_config_tick)

text \<open>
  The claim as stated fails when the sum wraps and the tick period does not divide the
  range of \<^verbatim>\<open>unsigned int\<close>: with 16 bits and ticks of 10 ms, a wait of 65535 ms with
  2 ms carried computes the sum 1, polls, times out and leaves 1, where
  \<open>(65535 + 2) mod 10\<close> is 7.
\<close>

theorem remainder_wrap_counterexample:
  "Task_wait_remainder ten_ms_config \<lparr>ulNotifiedValue = 0\<rparr> (65535 :: 16 word) 2 False
     = Some (False, 1, \<lparr>ulNotifiedValue = 0\<rparr>)
   \<and> (unat (65535 :: 16 word) + unat (2 :: 16 word)) mod unat (portTICK_PERIOD_MS ten_ms_config)
       = 7
   \<and> unat (1 :: 16 word)
       \<noteq> (unat (65535 :: 16 word) + unat (2 :: 16 word)) mod unat (portTICK_PERIOD_MS ten_ms_config)"
  by (simp add: ten_ms_wait_wrapped ten_ms_config_tick)

section \<open>Timeouts below one tick\<close>

lemma Task_wait_timed_0:
  "ms_div_tick cfg msecs = 0 \<Longrightarrow>
     Task_wait_timed cfg k msecs given
       = map_option (\<lambda>(n, k'). (n \<noteq> 0, k')) (ulTaskNotifyTake cfg k False 0 given)"
  by (simp add: Task_wait_timed_def)

lemma push_timed_0:
  "ms_div_tick cfg msecs = 0 \<Longrightarrow>
     push_timed cfg q item msecs received
       = map_option (\<lambda>(r, k). (r = pdTRUE, q\<lparr>queue_handle := k\<rparr>))
           (xQueueSend cfg (queue_handle q) item 0 received)"
  by (simp add: push_timed_def)

lemma pop_timed_0:
  "ms_div_tick cfg msecs = 0 \<Longrightarrow>
     pop_timed cfg q msecs item sent
       = map_option (\<lambda>(r, k, copied). (r = pdTRUE, q\<lparr>queue_handle := k\<rparr>, store copied item))
           (xQueueReceive cfg (queue_handle q) 0 sent)"
  by (simp add: pop_timed_def)

lemma Semaphore_wait_timed_0:
  "ms_div_tick cfg msecs = 0 \<Longrightarrow>
     Semaphore_wait_timed cfg s msecs given
       = map_option (\<lambda>(r, k). (r = pdTRUE, s\<lparr>semaphore_handle := k\<rparr>))
           (xSemaphoreTake cfg (semaphore_handle s) 0 given)"
  by (simp add: Semaphore_wait_timed_def)

lemma ulTaskNotifyTake_poll:
  "ulNotifiedValue k = 0 \<Longrightarrow> ulTaskNotifyTake cfg k False 0 given = Some (0, k)"
  by (simp add: ulTaskNotifyTake_def await_0)

lemma xQueueSend_poll:
  "uxLength k \<le> length (items k) \<Longrightarrow> xQueueSend cfg k item 0 received = Some (errQUEUE_FULL, k)"
  by (simp add: xQueueSend_def await_0)

lemma xQueueReceive_poll:
  "items k = [] \<Longrightarrow> xQueueReceive cfg k 0 sent = Some (errQUEUE_EMPTY, k, None)"
  by (simp add: xQueueReceive_def await_0)

lemma xSemaphoreTake_poll:
  "uxCount k = 0 \<Longrightarrow> xSemaphoreTake cfg k 0 given = Some (pdFALSE, k)"
  by (simp add: xSemaphoreTake_def await_0)

text \<open>
  Claim C9. A plain timed operation with fewer milliseconds than one tick period
  converts them to zero ticks and hands the kernel a timeout of 0: the kernel call of
  \<^verbatim>\<open>Task::wait\<close>, \<^verbatim>\<open>Queue::push\<close>, \<^verbatim>\<open>Queue::pop\<close> and \<^verbatim>\<open>Semaphore::wait\<close> is the one with
  0 ticks. It returns at once, and with false when nothing is available (no
  notification, a full queue, an empty queue, a semaphore at 0), whatever other
  contexts do. \<^verbatim>\<open>msleep\<close> with the same milliseconds yields instead.
\<close>

theorem short_timeout_polls:
  fixes cfg :: "'t::len word config" and msecs :: "'w::len word"
    and s :: "'u::len word Semaphore"
  assumes "unat msecs < unat (portTICK_PERIOD_MS cfg)"
  shows "ms_div_tick cfg msecs = 0
       \<and> Task_wait_timed cfg k msecs given
           = map_option (\<lambda>(n, k'). (n \<noteq> 0, k')) (ulTaskNotifyTake cfg k False 0 given)
       \<and> push_timed cfg q item msecs received
           = map_option (\<lambda>(r, k). (r = pdTRUE, q\<lparr>queue_handle := k\<rparr>))
               (xQueueSend cfg (queue_handle q) item 0 received)
       \<and> pop_timed cfg q msecs item sent
           = map_option (\<lambda>(r, k, copied). (r = pdTRUE, q\<lparr>queue_handle := k\<rparr>, store copied item))
               (xQueueReceive cfg (queue_handle q) 0 sent)
       \<and> Semaphore_wait_timed cfg s msecs given
           = map_option (\<lambda>(r, k). (r = pdTRUE, s\<lparr>semaphore_handle := k\<rparr>))
               (xSemaphoreTake cfg (semaphore_handle s) 0 given)
       \<and> (ulNotifiedValue k = 0 \<longrightarrow> Task_wait_timed cfg k msecs given = Some (False, k))
       \<and> (uxLength (queue_handle q) \<le> length (items (queue_handle q)) \<longrightarrow>
            push_timed cfg q item msecs received = Some (False, q))
       \<and> (items (queue_handle q) = [] \<longrightarrow> pop_timed cfg q msecs item sent = Some (False, q, item))
       \<and> (uxCount (semaphore_handle s) = 0 \<longrightarrow>
            Semaphore_wait_timed cfg s msecs given = Some (False, s))
       \<and> msleep cfg msecs = [TaskYIELD]"
proof -
  have z: "ms_div_tick cfg msecs = 0" using assms by (rule ms_div_tick_below)
  have t: "Task_wait_timed cfg k msecs given = Some (False, k)" if "ulNotifiedValue k = 0"
    by (simp add: Task_wait_timed_0 [OF z] ulTaskNotifyTake_poll [OF that])
  have pu: "push_timed cfg q item msecs received = Some (False, q)"
    if "uxLength (queue_handle q) \<le> length (items (queue_handle q))"
    by (simp add: push_timed_0 [OF z] xQueueSend_poll [OF that] errQUEUE_FULL_def pdTRUE_def)
  have po: "pop_timed cfg q msecs item sent = Some (False, q, item)"
    if "items (queue_handle q) = []"
    by (simp add: pop_timed_0 [OF z] xQueueReceive_poll [OF that] errQUEUE_EMPTY_def pdTRUE_def
        store_def)
  have se: "Semaphore_wait_timed cfg s msecs given = Some (False, s)"
    if "uxCount (semaphore_handle s) = 0"
    by (simp add: Semaphore_wait_timed_0 [OF z] xSemaphoreTake_poll [OF that] pdFALSE_def
        pdTRUE_def)
  have m: "msleep cfg msecs = [TaskYIELD]"
    by (simp add: msleep_def z yield_def)
  show ?thesis
    using z t pu po se m
    by (simp add: Task_wait_timed_0 push_timed_0 pop_timed_0 Semaphore_wait_timed_0)
qed

lemma Queue_new_handle:
  "items (queue_handle (Queue_new n a b)) = []" "uxLength (queue_handle (Queue_new n a b)) = n"
  by (simp_all add: Queue_new_def xQueueCreate_def)

lemma Semaphore_new_count: "uxCount (semaphore_handle (Semaphore_new binary a)) = 0"
  by (simp add: Semaphore_new_def xSemaphoreCreateBinary_def xSemaphoreCreateCounting_def)

text \<open>
  With ticks of 16 ms, 5 ms are no tick: each operation fails at once although another
  context would have served it.
\<close>

theorem short_timeout_polls_witness:
  "unat (5 :: 16 word) < unat (portTICK_PERIOD_MS avr_config)
   \<and> ms_div_tick avr_config (5 :: 16 word) = 0
   \<and> Task_wait_timed avr_config \<lparr>ulNotifiedValue = 0\<rparr> (5 :: 16 word) True
       = Some (False, \<lparr>ulNotifiedValue = 0\<rparr>)
   \<and> push_timed avr_config (Queue_new 0 0 0) (7 :: nat) (5 :: 16 word) True
       = Some (False, Queue_new 0 0 0)
   \<and> pop_timed avr_config (Queue_new 1 0 0) (5 :: 16 word) (7 :: nat) (Some 8)
       = Some (False, Queue_new 1 0 0, 7)
   \<and> Semaphore_wait_timed avr_config (Semaphore_new True 0 :: 8 word Semaphore) (5 :: 16 word) True
       = Some (False, Semaphore_new True 0)
   \<and> msleep avr_config (5 :: 16 word) = [TaskYIELD]"
proof -
  have h: "unat (5 :: 16 word) < unat (portTICK_PERIOD_MS avr_config)"
    by (simp add: avr_config_tick)
  have k: "ulNotifiedValue \<lparr>ulNotifiedValue = 0\<rparr> = 0"
    by simp
  have full: "uxLength (queue_handle (Queue_new 0 0 0 :: nat Queue))
                \<le> length (items (queue_handle (Queue_new 0 0 0 :: nat Queue)))"
    by (simp add: Queue_new_handle)
  have empty: "items (queue_handle (Queue_new 1 0 0 :: nat Queue)) = []"
    by (simp add: Queue_new_handle)
  have none: "uxCount (semaphore_handle (Semaphore_new True 0 :: 8 word Semaphore)) = 0"
    by (simp add: Semaphore_new_count)
  note a = short_timeout_polls [OF h, where k = "\<lparr>ulNotifiedValue = 0\<rparr>" and given = True
      and q = "Queue_new 1 0 0" and item = "7 :: nat" and sent = "Some 8" and received = True
      and s = "Semaphore_new True 0 :: 8 word Semaphore"]
  note b = short_timeout_polls [OF h, where k = "\<lparr>ulNotifiedValue = 0\<rparr>" and given = True
      and q = "Queue_new 0 0 0" and item = "7 :: nat" and sent = "Some 8" and received = True
      and s = "Semaphore_new True 0 :: 8 word Semaphore"]
  show ?thesis using h k full empty none a b by blast
qed

section \<open>The deferred context switch\<close>

lemma length_yieldFromIsr: "length (yieldFromIsr cfg) = 1"
  by (simp add: yieldFromIsr_def)

lemma pushFromInterrupt_flag:
  "higher_priority_task_woken_from_push (snd (pushFromInterrupt q item woken)) =
     (if woken \<and> length (items (queue_handle q)) < uxLength (queue_handle q) then pdTRUE
      else higher_priority_task_woken_from_push q)"
  by (simp add: pushFromInterrupt_def xQueueSendFromISR_def)

lemma pushFromInterrupt_keeps:
  "higher_priority_task_woken_from_push q \<noteq> 0 \<Longrightarrow>
     higher_priority_task_woken_from_push (snd (pushFromInterrupt q item woken)) \<noteq> 0"
  by (simp add: pushFromInterrupt_flag pdTRUE_def)

lemma pushes_from_interrupt_last:
  "(higher_priority_task_woken_from_push (last (q # pushes_from_interrupt q cs)) \<noteq> 0) =
     (higher_priority_task_woken_from_push q \<noteq> 0
      \<or> (\<exists>q' \<in> set (pushes_from_interrupt q cs). higher_priority_task_woken_from_push q' \<noteq> 0))"
proof (induction cs arbitrary: q)
  case Nil
  then show ?case by simp
next
  case (Cons c cs)
  obtain item woken where c: "c = (item, woken)" by (cases c)
  let ?q = "snd (pushFromInterrupt q item woken)"
  have "(higher_priority_task_woken_from_push (last (q # pushes_from_interrupt q (c # cs))) \<noteq> 0)
      = (higher_priority_task_woken_from_push (last (?q # pushes_from_interrupt ?q cs)) \<noteq> 0)"
    by (simp add: c Let_def)
  also have "\<dots> = (higher_priority_task_woken_from_push ?q \<noteq> 0
      \<or> (\<exists>q' \<in> set (pushes_from_interrupt ?q cs). higher_priority_task_woken_from_push q' \<noteq> 0))"
    by (rule Cons.IH)
  also have "\<dots> = (higher_priority_task_woken_from_push q \<noteq> 0
      \<or> (\<exists>q' \<in> set (pushes_from_interrupt q (c # cs)). higher_priority_task_woken_from_push q' \<noteq> 0))"
    using pushFromInterrupt_keeps [of q item woken] by (auto simp: c Let_def)
  finally show ?case .
qed

lemma push_batch:
  "finalizePushFromInterrupt cfg
      (last (preparePushFromInterrupt q # pushes_from_interrupt (preparePushFromInterrupt q) cs)) =
     (if \<exists>q' \<in> set (pushes_from_interrupt (preparePushFromInterrupt q) cs).
           higher_priority_task_woken_from_push q' \<noteq> 0
      then yieldFromIsr cfg else [])"
proof -
  have "higher_priority_task_woken_from_push (preparePushFromInterrupt q) = 0"
    by (simp add: preparePushFromInterrupt_def)
  then show ?thesis
    using pushes_from_interrupt_last [of "preparePushFromInterrupt q" cs]
    by (simp add: finalizePushFromInterrupt_def)
qed

lemma Semaphore_postFromInterrupt_flag:
  "semaphore_higher_priority_task_woken (Semaphore_postFromInterrupt s woken) =
     (if woken \<and> uxCount (semaphore_handle s) < uxMaxCount (semaphore_handle s) then pdTRUE
      else semaphore_higher_priority_task_woken s)"
  by (simp add: Semaphore_postFromInterrupt_def xSemaphoreGiveFromISR_def)

lemma Semaphore_postFromInterrupt_keeps:
  "semaphore_higher_priority_task_woken s \<noteq> 0 \<Longrightarrow>
     semaphore_higher_priority_task_woken (Semaphore_postFromInterrupt s woken) \<noteq> 0"
  by (simp add: Semaphore_postFromInterrupt_flag pdTRUE_def)

lemma semaphore_posts_from_interrupt_last:
  "(semaphore_higher_priority_task_woken (last (s # semaphore_posts_from_interrupt s cs)) \<noteq> 0) =
     (semaphore_higher_priority_task_woken s \<noteq> 0
      \<or> (\<exists>s' \<in> set (semaphore_posts_from_interrupt s cs).
            semaphore_higher_priority_task_woken s' \<noteq> 0))"
proof (induction cs arbitrary: s)
  case Nil
  then show ?case by simp
next
  case (Cons woken cs)
  let ?s = "Semaphore_postFromInterrupt s woken"
  have "(semaphore_higher_priority_task_woken (last (s # semaphore_posts_from_interrupt s (woken # cs))) \<noteq> 0)
      = (semaphore_higher_priority_task_woken (last (?s # semaphore_posts_from_interrupt ?s cs)) \<noteq> 0)"
    by (simp add: Let_def)
  also have "\<dots> = (semaphore_higher_priority_task_woken ?s \<noteq> 0
      \<or> (\<exists>s' \<in> set (semaphore_posts_from_interrupt ?s cs).
            semaphore_higher_priority_task_woken s' \<noteq> 0))"
    by (rule Cons.IH)
  also have "\<dots> = (semaphore_higher_priority_task_woken s \<noteq> 0
      \<or> (\<exists>s' \<in> set (semaphore_posts_from_interrupt s (woken # cs)).
            semaphore_higher_priority_task_woken s' \<noteq> 0))"
    using Semaphore_postFromInterrupt_keeps [of s woken] by (auto simp: Let_def)
  finally show ?case .
qed

lemma semaphore_batch:
  "Semaphore_finalizePostFromInterrupt cfg
      (last (Semaphore_preparePostFromInterrupt s
             # semaphore_posts_from_interrupt (Semaphore_preparePostFromInterrupt s) cs)) =
     (if \<exists>s' \<in> set (semaphore_posts_from_interrupt (Semaphore_preparePostFromInterrupt s) cs).
           semaphore_higher_priority_task_woken s' \<noteq> 0
      then yieldFromIsr cfg else [])"
proof -
  have "semaphore_higher_priority_task_woken (Semaphore_preparePostFromInterrupt s) = 0"
    by (simp add: Semaphore_preparePostFromInterrupt_def)
  then show ?thesis
    using semaphore_posts_from_interrupt_last [of "Semaphore_preparePostFromInterrupt s" cs]
    by (simp add: Semaphore_finalizePostFromInterrupt_def)
qed

lemma Task_postFromInterrupt_Some:
  "handle t = Some k \<Longrightarrow>
     Task_postFromInterrupt t woken =
       Some (t\<lparr>handle := Some (k\<lparr>ulNotifiedValue := ulNotifiedValue k + 1\<rparr>),
               higher_priority_task_woken :=
                 (if woken then pdTRUE else higher_priority_task_woken t)\<rparr>)"
  by (simp add: Task_postFromInterrupt_def vTaskNotifyGiveFromISR_def)

lemma task_posts_from_interrupt_last:
  "handle t \<noteq> None \<Longrightarrow>
     \<exists>ts. task_posts_from_interrupt t cs = Some ts \<and> length ts = length cs
       \<and> ((higher_priority_task_woken (last (t # ts)) \<noteq> 0) =
            (higher_priority_task_woken t \<noteq> 0 \<or> True \<in> set cs))
       \<and> ((\<exists>t' \<in> set ts. higher_priority_task_woken t' \<noteq> 0) =
            (cs \<noteq> [] \<and> (higher_priority_task_woken t \<noteq> 0 \<or> True \<in> set cs)))"
proof (induction cs arbitrary: t)
  case Nil
  then show ?case by simp
next
  case (Cons woken cs)
  from Cons.prems obtain k where k: "handle t = Some k" by auto
  let ?t = "t\<lparr>handle := Some (k\<lparr>ulNotifiedValue := ulNotifiedValue k + 1\<rparr>),
               higher_priority_task_woken :=
                 (if woken then pdTRUE else higher_priority_task_woken t)\<rparr>"
  have p: "Task_postFromInterrupt t woken = Some ?t" by (rule Task_postFromInterrupt_Some [OF k])
  have "handle ?t \<noteq> None" by simp
  from Cons.IH [OF this] obtain ts where
    ts: "task_posts_from_interrupt ?t cs = Some ts" "length ts = length cs"
      "(higher_priority_task_woken (last (?t # ts)) \<noteq> 0) =
         (higher_priority_task_woken ?t \<noteq> 0 \<or> True \<in> set cs)"
      "(\<exists>t' \<in> set ts. higher_priority_task_woken t' \<noteq> 0) =
         (cs \<noteq> [] \<and> (higher_priority_task_woken ?t \<noteq> 0 \<or> True \<in> set cs))"
    by blast
  have r: "task_posts_from_interrupt t (woken # cs) = Some (?t # ts)"
    by (simp add: p ts(1))
  have f: "(higher_priority_task_woken ?t \<noteq> 0) = (higher_priority_task_woken t \<noteq> 0 \<or> woken)"
    by (simp add: pdTRUE_def)
  have l: "(higher_priority_task_woken (last (t # ?t # ts)) \<noteq> 0) =
         (higher_priority_task_woken t \<noteq> 0 \<or> True \<in> set (woken # cs))"
    using ts(3) f by auto
  have e: "(\<exists>t' \<in> set (?t # ts). higher_priority_task_woken t' \<noteq> 0) =
         (higher_priority_task_woken t \<noteq> 0 \<or> True \<in> set (woken # cs))"
    using ts(4) f by auto
  show ?case using r ts(2) l e by auto
qed

text \<open>
  Claim C6. In a sequence of the prepare call, any calls of the interrupt entry point
  and the finalize call on one object, for \<^verbatim>\<open>Queue\<close> (push), \<^verbatim>\<open>Semaphore\<close> and \<^verbatim>\<open>Task\<close>:
  the prepare call sets the flag to 0; the finalize call issues the one request of
  \<^verbatim>\<open>yieldFromIsr\<close> when the flag was raised after any of the calls in between, and no
  request otherwise. For \<^verbatim>\<open>Task\<close>, whose handle must not be null, the flag is raised
  exactly when one of the calls woke a task of higher priority.
\<close>

theorem interrupt_batch_requests:
  fixes cfg :: "'t::len word config" and s :: "'u::len word Semaphore"
  assumes "handle t \<noteq> None"
  shows "higher_priority_task_woken_from_push (preparePushFromInterrupt q) = 0
       \<and> semaphore_higher_priority_task_woken (Semaphore_preparePostFromInterrupt s) = 0
       \<and> higher_priority_task_woken (Task_preparePostFromInterrupt t) = 0
       \<and> finalizePushFromInterrupt cfg
            (last (preparePushFromInterrupt q
                   # pushes_from_interrupt (preparePushFromInterrupt q) pushes)) =
           (if \<exists>q' \<in> set (pushes_from_interrupt (preparePushFromInterrupt q) pushes).
                 higher_priority_task_woken_from_push q' \<noteq> 0
            then yieldFromIsr cfg else [])
       \<and> Semaphore_finalizePostFromInterrupt cfg
            (last (Semaphore_preparePostFromInterrupt s
                   # semaphore_posts_from_interrupt (Semaphore_preparePostFromInterrupt s) wokens)) =
           (if \<exists>s' \<in> set (semaphore_posts_from_interrupt
                               (Semaphore_preparePostFromInterrupt s) wokens).
                 semaphore_higher_priority_task_woken s' \<noteq> 0
            then yieldFromIsr cfg else [])
       \<and> (\<exists>ts. task_posts_from_interrupt (Task_preparePostFromInterrupt t) wokens = Some ts
              \<and> Task_finalizePostFromInterrupt cfg (last (Task_preparePostFromInterrupt t # ts)) =
                  (if \<exists>t' \<in> set ts. higher_priority_task_woken t' \<noteq> 0
                   then yieldFromIsr cfg else [])
              \<and> ((\<exists>t' \<in> set ts. higher_priority_task_woken t' \<noteq> 0) = (True \<in> set wokens)))
       \<and> length (yieldFromIsr cfg) = 1"
proof -
  let ?t = "Task_preparePostFromInterrupt t"
  have z: "higher_priority_task_woken ?t = 0" and h: "handle ?t \<noteq> None"
    using assms by (simp_all add: Task_preparePostFromInterrupt_def)
  from task_posts_from_interrupt_last [OF h, of wokens] obtain ts where
    ts: "task_posts_from_interrupt ?t wokens = Some ts"
      "(higher_priority_task_woken (last (?t # ts)) \<noteq> 0) =
         (higher_priority_task_woken ?t \<noteq> 0 \<or> True \<in> set wokens)"
      "(\<exists>t' \<in> set ts. higher_priority_task_woken t' \<noteq> 0) =
         (wokens \<noteq> [] \<and> (higher_priority_task_woken ?t \<noteq> 0 \<or> True \<in> set wokens))"
    by blast
  have e: "(\<exists>t' \<in> set ts. higher_priority_task_woken t' \<noteq> 0) = (True \<in> set wokens)"
    using ts(3) z by auto
  have f: "Task_finalizePostFromInterrupt cfg (last (?t # ts)) =
      (if \<exists>t' \<in> set ts. higher_priority_task_woken t' \<noteq> 0 then yieldFromIsr cfg else [])"
    using ts(2) z e by (simp add: Task_finalizePostFromInterrupt_def)
  have tk: "\<exists>ts. task_posts_from_interrupt ?t wokens = Some ts
              \<and> Task_finalizePostFromInterrupt cfg (last (?t # ts)) =
                  (if \<exists>t' \<in> set ts. higher_priority_task_woken t' \<noteq> 0
                   then yieldFromIsr cfg else [])
              \<and> ((\<exists>t' \<in> set ts. higher_priority_task_woken t' \<noteq> 0) = (True \<in> set wokens))"
    using ts(1) f e by blast
  have p: "higher_priority_task_woken_from_push (preparePushFromInterrupt q) = 0"
    by (simp add: preparePushFromInterrupt_def)
  have sp: "semaphore_higher_priority_task_woken (Semaphore_preparePostFromInterrupt s) = 0"
    by (simp add: Semaphore_preparePostFromInterrupt_def)
  show ?thesis
    using p sp z push_batch [of cfg q pushes] semaphore_batch [of cfg s wokens] tk
      length_yieldFromIsr [of cfg]
    by blast
qed

lemma three_pushes_from_interrupt:
  "map higher_priority_task_woken_from_push
     (pushes_from_interrupt (preparePushFromInterrupt (Queue_new 2 5 5))
        [(1 :: nat, False), (2, True), (3, False)]) = [0, 1, 1]"
  by (simp add: preparePushFromInterrupt_def Queue_new_def xQueueCreate_def pushFromInterrupt_def
      xQueueSendFromISR_def pdTRUE_def errQUEUE_FULL_def Let_def)

lemma two_semaphore_posts_from_interrupt:
  "map semaphore_higher_priority_task_woken
     (semaphore_posts_from_interrupt
        (Semaphore_preparePostFromInterrupt (Semaphore_new True 5 :: 8 word Semaphore))
        [False, False]) = [0, 0]"
  by (simp add: Semaphore_preparePostFromInterrupt_def Semaphore_new_def
      xSemaphoreCreateBinary_def Semaphore_postFromInterrupt_def xSemaphoreGiveFromISR_def
      pdTRUE_def errQUEUE_FULL_def Let_def)

lemma raised_if: "v \<in> set (map f xs) \<Longrightarrow> v \<noteq> (0 :: int) \<Longrightarrow> \<exists>x \<in> set xs. f x \<noteq> 0"
  by auto

lemma not_raised_if: "map f xs = [0, 0 :: int] \<Longrightarrow> \<not> (\<exists>x \<in> set xs. f x \<noteq> 0)"
  by (cases xs) (auto split: list.splits)

lemma three_pushes_raise:
  "\<exists>q' \<in> set (pushes_from_interrupt (preparePushFromInterrupt (Queue_new 2 5 5))
                  [(1 :: nat, False), (2, True), (3, False)]).
      higher_priority_task_woken_from_push q' \<noteq> 0"
proof -
  have "1 \<in> set (map higher_priority_task_woken_from_push
     (pushes_from_interrupt (preparePushFromInterrupt (Queue_new 2 5 5))
        [(1 :: nat, False), (2, True), (3, False)]))"
    by (simp only: three_pushes_from_interrupt) simp
  then show ?thesis by (rule raised_if) simp
qed

lemma two_semaphore_posts_raise_nothing:
  "\<not> (\<exists>s' \<in> set (semaphore_posts_from_interrupt
                      (Semaphore_preparePostFromInterrupt (Semaphore_new True 5 :: 8 word Semaphore))
                      [False, False]).
         semaphore_higher_priority_task_woken s' \<noteq> 0)"
  using two_semaphore_posts_from_interrupt by (rule not_raised_if)

text \<open>
  Three pushes into a queue of two, the second waking a task: one request. Two posts
  on a binary semaphore that wake nobody: no request. Two notifications, the first
  waking the task: one request.
\<close>

theorem interrupt_batch_requests_witness:
  "handle ((Task_new 5)\<lparr>handle := Some \<lparr>ulNotifiedValue = 0\<rparr>\<rparr>) \<noteq> None
   \<and> finalizePushFromInterrupt avr_config
        (last (preparePushFromInterrupt (Queue_new 2 5 5)
               # pushes_from_interrupt (preparePushFromInterrupt (Queue_new 2 5 5))
                   [(1 :: nat, False), (2, True), (3, False)])) = [TaskYIELD]
   \<and> Semaphore_finalizePostFromInterrupt avr_config
        (last (Semaphore_preparePostFromInterrupt (Semaphore_new True 5 :: 8 word Semaphore)
               # semaphore_posts_from_interrupt
                   (Semaphore_preparePostFromInterrupt (Semaphore_new True 5)) [False, False]))
        = []
   \<and> (\<exists>ts. task_posts_from_interrupt
               (Task_preparePostFromInterrupt
                  ((Task_new 5)\<lparr>handle := Some \<lparr>ulNotifiedValue = 0\<rparr>\<rparr>)) [True, False] = Some ts
          \<and> Task_finalizePostFromInterrupt avr_config
               (last (Task_preparePostFromInterrupt
                        ((Task_new 5)\<lparr>handle := Some \<lparr>ulNotifiedValue = 0\<rparr>\<rparr>) # ts))
              = [TaskYIELD])"
proof -
  have h: "handle ((Task_new 5)\<lparr>handle := Some \<lparr>ulNotifiedValue = 0\<rparr>\<rparr>) \<noteq> None"
    by simp
  note a = interrupt_batch_requests [OF h, where cfg = avr_config and q = "Queue_new 2 5 5"
      and pushes = "[(1 :: nat, False), (2, True), (3, False)]"
      and s = "Semaphore_new True 5 :: 8 word Semaphore" and wokens = "[False, False]"]
  note b = interrupt_batch_requests [OF h, where cfg = avr_config and q = "Queue_new 2 5 5"
      and pushes = "[(1 :: nat, False), (2, True), (3, False)]"
      and s = "Semaphore_new True 5 :: 8 word Semaphore" and wokens = "[True, False]"]
  have 1: "finalizePushFromInterrupt avr_config
        (last (preparePushFromInterrupt (Queue_new 2 5 5)
               # pushes_from_interrupt (preparePushFromInterrupt (Queue_new 2 5 5))
                   [(1 :: nat, False), (2, True), (3, False)])) = [TaskYIELD]"
    using a [THEN conjunct2, THEN conjunct2, THEN conjunct2, THEN conjunct1]
    using three_pushes_raise by (simp only: if_True avr_yieldFromIsr)
  have 2: "Semaphore_finalizePostFromInterrupt avr_config
        (last (Semaphore_preparePostFromInterrupt (Semaphore_new True 5 :: 8 word Semaphore)
               # semaphore_posts_from_interrupt
                   (Semaphore_preparePostFromInterrupt (Semaphore_new True 5)) [False, False]))
        = []"
    using a [THEN conjunct2, THEN conjunct2, THEN conjunct2, THEN conjunct2, THEN conjunct1]
    using two_semaphore_posts_raise_nothing by (simp only: if_False)
  have 3: "\<exists>ts. task_posts_from_interrupt
               (Task_preparePostFromInterrupt
                  ((Task_new 5)\<lparr>handle := Some \<lparr>ulNotifiedValue = 0\<rparr>\<rparr>)) [True, False] = Some ts
          \<and> Task_finalizePostFromInterrupt avr_config
               (last (Task_preparePostFromInterrupt
                        ((Task_new 5)\<lparr>handle := Some \<lparr>ulNotifiedValue = 0\<rparr>\<rparr>) # ts))
              = [TaskYIELD]"
  proof -
    let ?t = "Task_preparePostFromInterrupt ((Task_new 5)\<lparr>handle := Some \<lparr>ulNotifiedValue = 0\<rparr>\<rparr>)"
    from b [THEN conjunct2, THEN conjunct2, THEN conjunct2, THEN conjunct2, THEN conjunct2,
        THEN conjunct1]
    obtain ts where
      ts: "task_posts_from_interrupt ?t [True, False] = Some ts"
        "Task_finalizePostFromInterrupt avr_config (last (?t # ts)) =
           (if \<exists>t' \<in> set ts. higher_priority_task_woken t' \<noteq> 0
            then yieldFromIsr avr_config else [])"
        "(\<exists>t' \<in> set ts. higher_priority_task_woken t' \<noteq> 0) = (True \<in> set [True, False])"
      by blast
    from ts(3) have "\<exists>t' \<in> set ts. higher_priority_task_woken t' \<noteq> 0" by simp
    with ts(2) have "Task_finalizePostFromInterrupt avr_config (last (?t # ts)) = [TaskYIELD]"
      by (simp only: if_True avr_yieldFromIsr)
    with ts(1) show ?thesis by blast
  qed
  show ?thesis using h 1 2 3 by blast
qed

section \<open>Posting to a semaphore\<close>

lemma Semaphore_post_handle:
  "semaphore_handle (Semaphore_post s) =
     (if uxCount (semaphore_handle s) < uxMaxCount (semaphore_handle s)
      then (semaphore_handle s)\<lparr>uxCount := uxCount (semaphore_handle s) + 1\<rparr>
      else semaphore_handle s)"
  by (simp add: Semaphore_post_def xSemaphoreGive_def)

lemma posts_max: "uxMaxCount (semaphore_handle (posts k s)) = uxMaxCount (semaphore_handle s)"
  by (induction k arbitrary: s) (simp_all add: Semaphore_post_handle)

lemma posts_saturated:
  "uxCount (semaphore_handle s) = uxMaxCount (semaphore_handle s) \<Longrightarrow>
     uxCount (semaphore_handle (posts k s)) = uxMaxCount (semaphore_handle s)"
  by (induction k arbitrary: s) (simp_all add: Semaphore_post_handle)

lemma posts_count:
  fixes s :: "'u::len word Semaphore"
  shows "unat (uxCount (semaphore_handle s)) \<le> unat (uxMaxCount (semaphore_handle s)) \<Longrightarrow>
     unat (uxCount (semaphore_handle (posts k s)))
       = min (unat (uxCount (semaphore_handle s)) + k) (unat (uxMaxCount (semaphore_handle s)))"
proof (induction k arbitrary: s)
  case 0
  then show ?case by simp
next
  case (Suc k)
  let ?c = "uxCount (semaphore_handle s)" and ?m = "uxMaxCount (semaphore_handle s)"
  show ?case
  proof (cases "?c < ?m")
    case True
    then have lt: "unat ?c < unat ?m" by (simp add: word_less_nat_alt)
    have "unat ?m < 2 ^ LENGTH('u)" by (rule unsigned_less)
    with lt have b: "Suc (unat ?c) < 2 ^ LENGTH('u)" by linarith
    have u: "unat (?c + 1) = unat ?c + 1"
      using b by (simp add: unat_word_ariths)
    have h: "semaphore_handle (Semaphore_post s) = (semaphore_handle s)\<lparr>uxCount := ?c + 1\<rparr>"
      using True by (simp add: Semaphore_post_handle)
    have "unat (uxCount (semaphore_handle (Semaphore_post s)))
            \<le> unat (uxMaxCount (semaphore_handle (Semaphore_post s)))"
      using lt u by (simp add: h)
    from Suc.IH [OF this] show ?thesis using u by (simp add: h)
  next
    case False
    then have "unat ?m \<le> unat ?c" by (simp add: word_less_nat_alt)
    with Suc.prems have e: "?c = ?m" by (simp add: word_unat_eq_iff)
    have h: "semaphore_handle (Semaphore_post s) = semaphore_handle s"
      using False by (simp add: Semaphore_post_handle)
    have "unat (uxCount (semaphore_handle (Semaphore_post s)))
            \<le> unat (uxMaxCount (semaphore_handle (Semaphore_post s)))"
      using Suc.prems by (simp add: h)
    from Suc.IH [OF this] show ?thesis using e by (simp add: h)
  qed
qed

text \<open>
  Claim C7. On a semaphore constructed in binary mode any number \<open>k\<close> of at least
  one consecutive calls of \<^verbatim>\<open>post()\<close> leaves the count 1; on one constructed in counting
  mode \<open>k\<close> calls leave the count \<open>k\<close>, for every \<open>k\<close> up to the greatest value of
  \<^verbatim>\<open>UBaseType_t\<close>.
\<close>

theorem posts_saturate_or_count:
  fixes k :: nat
  shows "(1 \<le> k \<longrightarrow>
            unat (uxCount (semaphore_handle (posts k (Semaphore_new True a :: 'u::len word Semaphore)))) = 1)
       \<and> (k \<le> 2 ^ LENGTH('u) - 1 \<longrightarrow>
            unat (uxCount (semaphore_handle (posts k (Semaphore_new False a :: 'u word Semaphore)))) = k)"
proof -
  have b: "unat (uxCount (semaphore_handle (posts k (Semaphore_new True a :: 'u word Semaphore))))
             = min k 1"
    using posts_count [of "Semaphore_new True a :: 'u word Semaphore" k]
    by (simp add: Semaphore_new_def xSemaphoreCreateBinary_def)
  have c: "unat (uxCount (semaphore_handle (posts k (Semaphore_new False a :: 'u word Semaphore))))
             = min k (2 ^ LENGTH('u) - 1)"
    using posts_count [of "Semaphore_new False a :: 'u word Semaphore" k]
    by (simp add: Semaphore_new_def xSemaphoreCreateCounting_def unsigned_minus_1_eq_mask mask_eq_exp_minus_1)
  show ?thesis using b c by simp
qed

text \<open>
  Three posts with an 8-bit \<^verbatim>\<open>UBaseType_t\<close>: the binary semaphore holds 1, the counting
  one 3.
\<close>

theorem posts_saturate_or_count_witness:
  "(1 :: nat) \<le> 3
   \<and> unat (uxCount (semaphore_handle (posts 3 (Semaphore_new True 0 :: 8 word Semaphore)))) = 1
   \<and> (3 :: nat) \<le> 2 ^ LENGTH(8) - 1
   \<and> unat (uxCount (semaphore_handle (posts 3 (Semaphore_new False 0 :: 8 word Semaphore)))) = 3"
  using posts_saturate_or_count [of 3 0, where 'u = 8]
  by simp

section \<open>The order of a queue\<close>

lemma push_free:
  "length (items (queue_handle q)) < uxLength (queue_handle q) \<Longrightarrow>
     push cfg q v received
       = Some (q\<lparr>queue_handle := (queue_handle q)\<lparr>items := items (queue_handle q) @ [v]\<rparr>\<rparr>)"
  by (simp add: push_def xQueueSend_def)

lemma pop_front:
  "items (queue_handle q) = x # xs \<Longrightarrow>
     pop cfg q item sent = Some (q\<lparr>queue_handle := (queue_handle q)\<lparr>items := xs\<rparr>\<rparr>, x)"
  by (simp add: pop_def xQueueReceive_def store_def)

lemma history_fifo:
  "outstanding_within (uxLength (queue_handle q)) (length (items (queue_handle q))) cs \<Longrightarrow>
     \<exists>q' out. history cfg item cs (q, popped) = Some (q', popped @ out)
       \<and> out @ items (queue_handle q') = items (queue_handle q) @ pushed cs
       \<and> length out = count_list cs Pop
       \<and> uxLength (queue_handle q') = uxLength (queue_handle q)"
proof (induction cs arbitrary: q popped)
  case Nil
  then show ?case by simp
next
  case (Cons c cs)
  show ?case
  proof (cases c)
    case (Push v)
    let ?q = "q\<lparr>queue_handle := (queue_handle q)\<lparr>items := items (queue_handle q) @ [v]\<rparr>\<rparr>"
    from Cons.prems Push have
      free: "length (items (queue_handle q)) < uxLength (queue_handle q)" and
      rest: "outstanding_within (uxLength (queue_handle ?q)) (length (items (queue_handle ?q))) cs"
      by simp_all
    from Cons.IH [OF rest, of popped] obtain q' out where
      "history cfg item cs (?q, popped) = Some (q', popped @ out)"
      "out @ items (queue_handle q') = items (queue_handle ?q) @ pushed cs"
      "length out = count_list cs Pop"
      "uxLength (queue_handle q') = uxLength (queue_handle ?q)"
      by blast
    then show ?thesis
      using Push push_free [OF free, of cfg v False] by simp
  next
    case Pop
    from Cons.prems Pop have n: "0 < length (items (queue_handle q))" by simp
    then obtain x xs where xs: "items (queue_handle q) = x # xs"
      by (cases "items (queue_handle q)") auto
    let ?q = "q\<lparr>queue_handle := (queue_handle q)\<lparr>items := xs\<rparr>\<rparr>"
    from Cons.prems Pop xs have
      rest: "outstanding_within (uxLength (queue_handle ?q)) (length (items (queue_handle ?q))) cs"
      by simp
    from Cons.IH [OF rest, of "popped @ [x]"] obtain q' out where
      "history cfg item cs (?q, popped @ [x]) = Some (q', (popped @ [x]) @ out)"
      "out @ items (queue_handle q') = items (queue_handle ?q) @ pushed cs"
      "length out = count_list cs Pop"
      "uxLength (queue_handle q') = uxLength (queue_handle ?q)"
      by blast
    then have "history cfg item (c # cs) (q, popped) = Some (q', popped @ (x # out))
       \<and> (x # out) @ items (queue_handle q') = items (queue_handle q) @ pushed (c # cs)
       \<and> length (x # out) = count_list (c # cs) Pop
       \<and> uxLength (queue_handle q') = uxLength (queue_handle q)"
      using Pop xs pop_front [OF xs, of cfg item None] by simp
    then show ?thesis by blast
  qed
qed

text \<open>
  Claim C8. For every capacity \<open>C\<close> and every history of pushes and pops on a new
  queue that never has more than \<open>C\<close> items outstanding (nor fewer than none), every
  call returns, and the values the pops delivered are the values pushed, in the order
  of the pushes: the first as many of them as there were pops, followed in the queue by
  the ones not yet popped. A value is delivered as it was pushed, for every item type.
\<close>

theorem queue_fifo:
  assumes "outstanding_within C 0 cs"
  shows "\<exists>q' out. history cfg item cs (Queue_new C a b, []) = Some (q', out)
           \<and> out @ items (queue_handle q') = pushed cs
           \<and> out = take (count_list cs Pop) (pushed cs)"
proof -
  have "outstanding_within (uxLength (queue_handle (Queue_new C a b :: 'a Queue)))
          (length (items (queue_handle (Queue_new C a b :: 'a Queue)))) cs"
    using assms by (simp add: Queue_new_handle)
  from history_fifo [OF this, of cfg item "[]"] obtain q' out where
    h: "history cfg item cs (Queue_new C a b, []) = Some (q', out)"
      "out @ items (queue_handle q') = pushed cs"
      "length out = count_list cs Pop"
    by (auto simp: Queue_new_handle)
  from h(2,3) have "out = take (count_list cs Pop) (pushed cs)"
    by (metis append_eq_conv_conj)
  with h show ?thesis by blast
qed

text \<open>
  A queue of two with three pushes and three pops interleaved delivers 1, 2, 3; a
  push of 7 and a pop deliver 7.
\<close>

theorem queue_fifo_witness:
  "outstanding_within 2 0 [Push (1 :: nat), Push 2, Pop, Push 3, Pop, Pop]
   \<and> (\<exists>q'. history avr_config 0 [Push (1 :: nat), Push 2, Pop, Push 3, Pop, Pop]
               (Queue_new 2 0 0, []) = Some (q', [1, 2, 3]))
   \<and> outstanding_within 1 0 [Push (7 :: nat), Pop]
   \<and> (\<exists>q'. history avr_config 0 [Push (7 :: nat), Pop] (Queue_new 1 0 0, []) = Some (q', [7]))"
proof -
  have h: "outstanding_within 2 0 [Push (1 :: nat), Push 2, Pop, Push 3, Pop, Pop]"
    by simp
  have r: "outstanding_within 1 0 [Push (7 :: nat), Pop]"
    by simp
  from queue_fifo [OF h, of avr_config 0 0 0]
  have 1: "\<exists>q'. history avr_config 0 [Push (1 :: nat), Push 2, Pop, Push 3, Pop, Pop]
               (Queue_new 2 0 0, []) = Some (q', [1, 2, 3])"
    by (simp del: history.simps) blast
  from queue_fifo [OF r, of avr_config 0 0 0]
  have 2: "\<exists>q'. history avr_config 0 [Push (7 :: nat), Pop] (Queue_new 1 0 0, []) = Some (q', [7])"
    by (simp del: history.simps) blast
  show ?thesis using h r 1 2 by blast
qed

section \<open>Stopping a task\<close>

text \<open>
  What \<^verbatim>\<open>stop\<close> does guarantee: with a null handle it returns false and changes
  nothing; and it returns true only from the test that read \<^verbatim>\<open>running\<close> as false.
\<close>

lemma stop_null_handle:
  "stopper s = Stop_Test_Handle \<Longrightarrow> handle (task s) = None \<Longrightarrow>
     stop_step s = s\<lparr>stopper := Stop_Returned False\<rparr>"
  by (simp add: stop_step_def)

lemma stop_true_not_running:
  "stopper s \<noteq> Stop_Returned True \<Longrightarrow> stopper (stop_step s) = Stop_Returned True \<Longrightarrow>
     \<not> running (task (stop_step s)) \<and> task (stop_step s) = task s"
  by (cases "stopper s") (auto simp: stop_step_def split: if_splits)

lemma started_worker:
  "started (start avr_config 192 (Task_new 0) 0 ''worker'' (Some \<lparr>ulNotifiedValue = 0\<rparr>)) =
     \<lparr> task = \<lparr> running = False, do_stop = False, handle = Some \<lparr>ulNotifiedValue = 0\<rparr>,
                 higher_priority_task_woken = 0 \<rparr>,
       stopper = Stop_Test_Handle, worker = Some Entry_Set_Running,
       run_calls = 0, stop_yields = 0 \<rparr>"
  by (simp add: started_def start_def Task_new_def avr_config_static Let_def)

lemma stop_of_started:
  "schedule [Stopper, Stopper, Stopper]
     (started (start avr_config 192 (Task_new 0) 0 ''worker'' (Some \<lparr>ulNotifiedValue = 0\<rparr>))) =
     \<lparr> task = \<lparr> running = False, do_stop = True, handle = Some \<lparr>ulNotifiedValue = 0\<rparr>,
                 higher_priority_task_woken = 0 \<rparr>,
       stopper = Stop_Returned True, worker = Some Entry_Set_Running,
       run_calls = 0, stop_yields = 0 \<rparr>"
  by (simp add: started_worker stop_step_def)

lemma run_after_stop:
  "schedule [Stopper, Stopper, Stopper, Worker True, Worker True]
     (started (start avr_config 192 (Task_new 0) 0 ''worker'' (Some \<lparr>ulNotifiedValue = 0\<rparr>))) =
     \<lparr> task = \<lparr> running = True, do_stop = True, handle = Some \<lparr>ulNotifiedValue = 0\<rparr>,
                 higher_priority_task_woken = 0 \<rparr>,
       stopper = Stop_Returned True, worker = Some Entry_Test_Do_Stop,
       run_calls = 1, stop_yields = 0 \<rparr>"
  by (simp add: started_worker stop_step_def entry_step_def)

text \<open>
  Claim C3 at the input where the code departs from it. \<^verbatim>\<open>start\<close> has returned true and
  the new kernel task has not been scheduled yet (its priority is not above the
  caller's, or the scheduler is not running yet); the caller calls \<^verbatim>\<open>stop\<close>. \<^verbatim>\<open>running\<close> is
  still false, so \<^verbatim>\<open>stop\<close> returns true without a yield, while the run-loop is still to
  execute: when the kernel task is scheduled it sets \<^verbatim>\<open>running\<close> and calls \<^verbatim>\<open>run()\<close>.
\<close>

theorem stop_returns_before_run_loop:
  "stopper (schedule [Stopper, Stopper, Stopper]
     (started (start avr_config 192 (Task_new 0) 0 ''worker'' (Some \<lparr>ulNotifiedValue = 0\<rparr>))))
     = Stop_Returned True
   \<and> run_loop_pending (schedule [Stopper, Stopper, Stopper]
     (started (start avr_config 192 (Task_new 0) 0 ''worker'' (Some \<lparr>ulNotifiedValue = 0\<rparr>))))
   \<and> run_calls (schedule [Stopper, Stopper, Stopper]
     (started (start avr_config 192 (Task_new 0) 0 ''worker'' (Some \<lparr>ulNotifiedValue = 0\<rparr>)))) = 0
   \<and> run_calls (schedule [Stopper, Stopper, Stopper, Worker True, Worker True]
     (started (start avr_config 192 (Task_new 0) 0 ''worker'' (Some \<lparr>ulNotifiedValue = 0\<rparr>)))) = 1
   \<and> running (task (schedule [Stopper, Stopper, Stopper, Worker True, Worker True]
     (started (start avr_config 192 (Task_new 0) 0 ''worker'' (Some \<lparr>ulNotifiedValue = 0\<rparr>)))))"
  by (simp only: stop_of_started run_after_stop) (simp add: run_loop_pending_def)

end
